theory Spec2Isabelle
  imports Main "HOL-Library.Sublist"
begin

section \<open>The collection-rank synchroniser of algolia-sync-manual-sort\<close>

text \<open>
  The repository holds two route modules with the same \<^verbatim>\<open>action\<close>: the
  session-authenticated one (\<^verbatim>\<open>src/unnamed/part_003\<close>) and the prototype that
  reads shop and token from the process environment (\<^verbatim>\<open>src/unnamed/part_002\<close>).
  Both fetch one collection, check that it is manually sorted, write the position of every
  product into a metafield and answer with the counts; the session variant stamps the
  collection with a time afterwards.

  The commerce platform is outside the repository. It is modelled as a function that
  answers the calls of one invocation: every \<^verbatim>\<open>await\<close> on it either throws or
  returns the parsed body. The calls an invocation issues are collected in a list, in
  order, which is the only effect the claims speak about. Console output is left out: no
  branch of the code reads it back.
\<close>

subsection \<open>Values\<close>

text \<open>
  A value thrown in JavaScript, as far as the handlers read it: \<^verbatim>\<open>error.message\<close>
  and \<^verbatim>\<open>error.status\<close>, each of which may be undefined.
\<close>

record js_error =
  message :: "string option"
  status :: "int option"

text \<open>The result of awaiting an external call.\<close>

datatype 'a outcome = is_Throws: Throws (thrown: js_error) | Returns 'a

text \<open>
  What the query selects: \<^verbatim>\<open>edges { node { id title } }\<close> below
  \<^verbatim>\<open>collection(id) { id handle sortOrder products(...) }\<close>. An answer that has a
  collection has the fields the query selects, so \<open>products\<close> is
  \<^verbatim>\<open>collection.products.edges.map((e) => e.node)\<close>.
\<close>

record node =
  node_id :: string
  node_title :: string

record collection =
  collection_id :: string
  handle :: string
  sortOrder :: string
  products :: "node list"

record user_error =
  ue_field :: "string list"
  ue_message :: string

text \<open>
  The parsed body of a GraphQL answer, as far as the code reads it:
  \<^verbatim>\<open>data?.data?.collection\<close> (absent or null is \<open>None\<close>) and
  \<^verbatim>\<open>data?.data?.productUpdate?.userErrors\<close> (absent is the empty list).
\<close>

record graphql_data =
  data_collection :: "collection option"
  userErrors :: "user_error list"

text \<open>One entry of \<^verbatim>\<open>metafields: [...]\<close> in a mutation's input.\<close>

record metafield =
  mf_namespace :: string
  mf_key :: string
  mf_type :: string
  mf_value :: string

text \<open>
  The three GraphQL documents the action sends, each with its variables:
  \<^item> \<open>GetCollection id first\<close>: the query \<^verbatim>\<open>getCollection($id)\<close>, whose text asks for
    \<^verbatim>\<open>products(first: 100, sortKey: MANUAL)\<close>; the page size of the text is kept as
    the second argument;
  \<^item> \<open>ProductUpdate id m\<close>: the mutation \<^verbatim>\<open>productUpdate\<close> with
    \<^verbatim>\<open>input: { id, metafields: [m] }\<close>;
  \<^item> \<open>CollectionUpdate id m\<close>: the mutation \<^verbatim>\<open>collectionUpdate\<close> with
    \<^verbatim>\<open>input: { id, metafields: [m] }\<close>.
\<close>

datatype api_call =
  GetCollection string nat
| ProductUpdate string metafield
| CollectionUpdate string metafield

text \<open>
  The API handle of one invocation (\<^verbatim>\<open>admin.graphql\<close> followed by
  \<^verbatim>\<open>response.json()\<close>, or \<^verbatim>\<open>shopifyGraphQL\<close>): given how many calls the
  invocation has issued before and the call, it throws or returns the body. The loop is
  sequential (each write is awaited), so the position of a call determines everything that
  happened before it.
\<close>

type_synonym graphql = "nat \<Rightarrow> api_call \<Rightarrow> graphql_data outcome"

text \<open>
  The two hidden inputs of the form the UI posts (part_003 lines 301-302), as
  \<^verbatim>\<open>formData.get\<close> returns them. A request that lacks one of them is not
  modelled.
\<close>

record form =
  collectionId :: string
  collectionHandle :: string

text \<open>\<^verbatim>\<open>{ productId, title, error }\<close> and \<^verbatim>\<open>{ success, failed, errors }\<close>.\<close>

record error_entry =
  productId :: string
  title :: string
  error :: "string option"

record results =
  success :: nat
  failed :: nat
  errors :: "error_entry list"

text \<open>
  What \<^verbatim>\<open>json(...)\<close> answers: \<^verbatim>\<open>json({ error }, { status })\<close> or
  \<^verbatim>\<open>json({ success: true, results, message })\<close>.
\<close>

datatype response =
  ErrorJson string nat
| ResultJson bool results string

subsection \<open>Numbers as text\<close>

text \<open>
  \<^verbatim>\<open>value.toString()\<close> and the template literals render a non-negative integer in
  decimal. The counters stay far below \<open>2^53\<close>, so \<open>nat\<close> is exact.
\<close>

definition digit :: "nat \<Rightarrow> char" where
  "digit d = ''0123456789'' ! d"

fun toString :: "nat \<Rightarrow> string" where
  "toString n = (if n < 10 then [digit n] else toString (n div 10) @ [digit (n mod 10)])"

declare toString.simps [simp del]

text \<open>Reading decimal text back, to state that \<open>toString\<close> loses nothing.\<close>

definition digit_value :: "char \<Rightarrow> nat" where
  "digit_value ch = of_char ch - 48"

definition decimal :: "string \<Rightarrow> nat" where
  "decimal s = foldl (\<lambda>a ch. 10 * a + digit_value ch) 0 s"

subsection \<open>The product write\<close>

text \<open>
  \<^verbatim>\<open>setProductMetafield\<close> (part_003 lines 19-52, part_002 lines 22-50) builds the
  mutation and awaits the API. In part_003 a body with \<^verbatim>\<open>userErrors\<close> is printed
  with \<^verbatim>\<open>console.error\<close> and returned like any other body; nothing is thrown for
  it. The call is appended to the calls issued so far.
\<close>

definition setProductMetafield ::
  "graphql \<Rightarrow> api_call list \<Rightarrow> string \<Rightarrow> string \<Rightarrow> nat \<Rightarrow> graphql_data outcome \<times> api_call list" where
  "setProductMetafield gql calls pid key val =
     (let mutation = ProductUpdate pid
            \<lparr>mf_namespace = ''custom'', mf_key = key, mf_type = ''number_integer'',
             mf_value = toString val\<rparr>
      in (gql (length calls) mutation, calls @ [mutation]))"

subsection \<open>The loop over the products\<close>

text \<open>
  \<^verbatim>\<open>for (let i = 0; i < products.length; i++) { try { ... } catch (error) { ... } }\<close>
  (part_003 lines 107-129, part_002 lines 111-134; the two bodies are the same text).
\<close>

function rank_loop ::
  "graphql \<Rightarrow> string \<Rightarrow> node list \<Rightarrow> nat \<Rightarrow> results \<times> api_call list \<Rightarrow> results \<times> api_call list" where
  "rank_loop gql hdl ps i (res, calls) =
     (if i < length ps then
        (let product = ps ! i in
         case setProductMetafield gql calls (node_id product) (hdl @ ''_rank'') (i + 1) of
           (Returns d, calls') \<Rightarrow>
             rank_loop gql hdl ps (i + 1) (res\<lparr>success := success res + 1\<rparr>, calls')
         | (Throws e, calls') \<Rightarrow>
             rank_loop gql hdl ps (i + 1)
               (res\<lparr>failed := failed res + 1,
                    errors := errors res @
                      [\<lparr>productId = node_id product, title = node_title product,
                        error = message e\<rparr>]\<rparr>, calls'))
      else (res, calls))"
  by pat_completeness auto
termination
  by (relation "measure (\<lambda>(gql, hdl, ps, i, st). length ps - i)") auto

declare rank_loop.simps [simp del]

subsection \<open>The answer\<close>

text \<open>
  The message of the success answer (part_003 line 169, part_002 line 140), and
  \<^verbatim>\<open>error.message || "An unexpected error occurred"\<close>: an undefined or empty
  message gives the default.
\<close>

definition summary :: "results \<Rightarrow> string" where
  "summary res =
     ''Successfully updated '' @ toString (success res) @ '' products'' @
     (if failed res > 0 then '', '' @ toString (failed res) @ '' failed'' else '''')"

definition message_or_default :: "js_error \<Rightarrow> string" where
  "message_or_default e =
     (case message e of
        None \<Rightarrow> ''An unexpected error occurred''
      | Some m \<Rightarrow> if m = [] then ''An unexpected error occurred'' else m)"

text \<open>The outer \<^verbatim>\<open>catch\<close> of part_003 (lines 171-177) and of part_002 (142-145).\<close>

definition catch_session :: "js_error \<Rightarrow> response" where
  "catch_session e =
     (if status e = Some 401 then ErrorJson ''Session expired. Please refresh the page.'' 401
      else ErrorJson (message_or_default e) 500)"

definition catch_prototype :: "js_error \<Rightarrow> response" where
  "catch_prototype e = ErrorJson (message_or_default e) 500"

subsection \<open>The session-authenticated action (part_003 lines 55-178)\<close>

text \<open>
  The request as the action reads it: what \<^verbatim>\<open>authenticate.admin(request)\<close> does
  (it throws, or returns an object whose \<^verbatim>\<open>admin\<close> is the API handle or is
  missing), what \<^verbatim>\<open>request.formData()\<close> does, and the clock that
  \<^verbatim>\<open>new Date().toISOString()\<close> reads after the loop.
\<close>

record session_request =
  authenticate_admin :: "graphql option outcome"
  formData :: "form outcome"
  clock :: string

definition rendered_at :: "string \<Rightarrow> string \<Rightarrow> api_call" where
  "rendered_at cid now =
     CollectionUpdate cid
       \<lparr>mf_namespace = ''custom'', mf_key = ''rendered_at'',
        mf_type = ''single_line_text_field'', mf_value = now\<rparr>"

definition action_session :: "session_request \<Rightarrow> response \<times> api_call list" where
  "action_session request =
     (case authenticate_admin request of
        Throws e \<Rightarrow> (catch_session e, [])
      | Returns admin \<Rightarrow>
          (case formData request of
             Throws e \<Rightarrow> (catch_session e, [])
           | Returns fd \<Rightarrow>
               (case admin of
                  None \<Rightarrow> (ErrorJson ''Authentication required'' 401, [])
                | Some gql \<Rightarrow>
                    (let query = GetCollection (collectionId fd) 100 in
                     case gql 0 query of
                       Throws e \<Rightarrow> (catch_session e, [query])
                     | Returns d \<Rightarrow>
                         (case data_collection d of
                            None \<Rightarrow> (ErrorJson ''Collection not found'' 404, [query])
                          | Some c \<Rightarrow>
                              if sortOrder c \<noteq> ''MANUAL''
                              then (ErrorJson ''Collection is not manual sort'' 400, [query])
                              else
                                (case rank_loop gql (collectionHandle fd) (products c) 0
                                        (\<lparr>success = 0, failed = 0, errors = []\<rparr>, [query]) of
                                   (res, calls) \<Rightarrow>
                                     (let stamp = rendered_at (collectionId fd) (clock request) in
                                      case gql (length calls) stamp of
                                        Throws e \<Rightarrow> (catch_session e, calls @ [stamp])
                                      | Returns md \<Rightarrow>
                                          (ResultJson True res (summary res),
                                           calls @ [stamp]))))))))"

subsection \<open>The prototype action (part_002 lines 52-146)\<close>

text \<open>
  The process environment (\<^verbatim>\<open>process.env.SHOPIFY_SHOP\<close>,
  \<^verbatim>\<open>process.env.SHOPIFY_ACCESS_TOKEN\<close>), the form, and what the shop's endpoint
  answers to \<^verbatim>\<open>fetch\<close> for a shop and a token.
\<close>

record prototype_env =
  SHOPIFY_SHOP :: "string option"
  SHOPIFY_ACCESS_TOKEN :: "string option"
  formData_env :: "form outcome"
  fetch :: "string \<Rightarrow> string \<Rightarrow> graphql"

text \<open>
  \<^verbatim>\<open>shopifyGraphQL\<close> (lines 8-19) posts to the shop's endpoint with the token and
  returns \<^verbatim>\<open>jsonRes.data\<close>.
\<close>

definition shopifyGraphQL :: "(string \<Rightarrow> string \<Rightarrow> graphql) \<Rightarrow> string \<Rightarrow> string \<Rightarrow> graphql" where
  "shopifyGraphQL ftch shop accessToken k call = ftch shop accessToken k call"

text \<open>
  \<^verbatim>\<open>request.formData()\<close> is awaited before the \<^verbatim>\<open>try\<close>, so its rejection
  leaves the action as a throw; everything later answers with \<^verbatim>\<open>json\<close>.
  \<^verbatim>\<open>!shop || !accessToken\<close> holds for an unset variable and for the empty string.
\<close>

definition action_prototype :: "prototype_env \<Rightarrow> response outcome \<times> api_call list" where
  "action_prototype env =
     (case formData_env env of
        Throws e \<Rightarrow> (Throws e, [])
      | Returns fd \<Rightarrow>
          (case (SHOPIFY_SHOP env, SHOPIFY_ACCESS_TOKEN env) of
             (Some shop, Some accessToken) \<Rightarrow>
               if shop = [] \<or> accessToken = []
               then (Returns (ErrorJson ''Missing shop or access token'' 401), [])
               else
                 (let gql = shopifyGraphQL (fetch env) shop accessToken;
                      query = GetCollection (collectionId fd) 100 in
                  case gql 0 query of
                    Throws e \<Rightarrow> (Returns (catch_prototype e), [query])
                  | Returns d \<Rightarrow>
                      (case data_collection d of
                         None \<Rightarrow> (Returns (ErrorJson ''Collection not found'' 404), [query])
                       | Some c \<Rightarrow>
                           if sortOrder c \<noteq> ''MANUAL''
                           then (Returns (ErrorJson ''Collection is not manual sort'' 400),
                                 [query])
                           else
                             (case rank_loop gql (collectionHandle fd) (products c) 0
                                     (\<lparr>success = 0, failed = 0, errors = []\<rparr>, [query]) of
                                (res, calls) \<Rightarrow>
                                  (Returns (ResultJson True res (summary res)), calls))))
           | _ \<Rightarrow> (Returns (ErrorJson ''Missing shop or access token'' 401), [])))"

subsection \<open>The platform's side of the fetch\<close>

text \<open>
  How the platform answers \<^verbatim>\<open>collection(id) { ... products(first: n, sortKey: MANUAL) }\<close>:
  the shop maps an identifier to its collection with all members in manual order, and the
  answer holds the first \<open>n\<close> of them. This is the platform's documented paging, not code
  of the repository; it is used only where a claim speaks about collections larger than a
  page.
\<close>

definition platform_collection ::
  "(string \<Rightarrow> collection option) \<Rightarrow> string \<Rightarrow> nat \<Rightarrow> graphql_data outcome" where
  "platform_collection shop cid n =
     Returns \<lparr>data_collection = map_option (\<lambda>c. c\<lparr>products := take n (products c)\<rparr>) (shop cid),
              userErrors = []\<rparr>"

subsection \<open>Vocabulary of the properties\<close>

text \<open>
  The mutation the loop sends for product \<open>p\<close> at 0-based index \<open>i\<close>, the writes for a
  whole product list, and the diagnostic record of a failed write.
\<close>

definition rank_write :: "string \<Rightarrow> node \<Rightarrow> nat \<Rightarrow> api_call" where
  "rank_write hdl p i =
     ProductUpdate (node_id p)
       \<lparr>mf_namespace = ''custom'', mf_key = hdl @ ''_rank'', mf_type = ''number_integer'',
        mf_value = toString (i + 1)\<rparr>"

definition rank_writes :: "string \<Rightarrow> node list \<Rightarrow> api_call list" where
  "rank_writes hdl ps = map (\<lambda>j. rank_write hdl (ps ! j) j) [0..<length ps]"

definition entry_of :: "node \<Rightarrow> js_error \<Rightarrow> error_entry" where
  "entry_of p e = \<lparr>productId = node_id p, title = node_title p, error = message e\<rparr>"

text \<open>
  In both actions the fetch is call 0, so the write for the product at index \<open>j\<close> is call
  \<open>j + 1\<close>. \<open>write_outcome\<close> is what the API does with it, \<open>failing\<close> lists the indices
  whose write throws, and \<open>tally\<close> is the \<^verbatim>\<open>results\<close> object these outcomes add up to.
\<close>

definition write_outcome :: "graphql \<Rightarrow> string \<Rightarrow> node list \<Rightarrow> nat \<Rightarrow> graphql_data outcome" where
  "write_outcome gql hdl ps j = gql (Suc j) (rank_write hdl (ps ! j) j)"

definition failing :: "graphql \<Rightarrow> string \<Rightarrow> node list \<Rightarrow> nat list" where
  "failing gql hdl ps = filter (\<lambda>j. is_Throws (write_outcome gql hdl ps j)) [0..<length ps]"

definition tally :: "graphql \<Rightarrow> string \<Rightarrow> node list \<Rightarrow> results" where
  "tally gql hdl ps =
     \<lparr>success = length (filter (\<lambda>j. \<not> is_Throws (write_outcome gql hdl ps j)) [0..<length ps]),
      failed = length (failing gql hdl ps),
      errors = map (\<lambda>j. entry_of (ps ! j) (thrown (write_outcome gql hdl ps j)))
                 (failing gql hdl ps)\<rparr>"

text \<open>
  An external call reports an error when it throws, or when the body it returns carries
  \<^verbatim>\<open>userErrors\<close>, which is how the platform reports an input it rejects and what
  part_003 line 48 tests before printing.
\<close>

definition reports_error :: "graphql_data outcome \<Rightarrow> bool" where
  "reports_error r = (case r of Throws e \<Rightarrow> True | Returns d \<Rightarrow> userErrors d \<noteq> [])"

text \<open>The product writes among the calls of an invocation, in order.\<close>

fun product_updates :: "api_call list \<Rightarrow> (string \<times> metafield) list" where
  "product_updates [] = []"
| "product_updates (ProductUpdate pid m # cs) = (pid, m) # product_updates cs"
| "product_updates (GetCollection cid n # cs) = product_updates cs"
| "product_updates (CollectionUpdate cid m # cs) = product_updates cs"

text \<open>
  The steps before the fetch. \<open>session_api\<close> is the API handle and the form when
  \<^verbatim>\<open>authenticate.admin\<close> and \<^verbatim>\<open>request.formData\<close> return and
  \<^verbatim>\<open>admin\<close> is present; \<open>prototype_api\<close> is the same for the prototype, when shop
  and token are set. \<open>fetched gql fd c\<close> says that the fetch returns collection \<open>c\<close>.
\<close>

definition session_api :: "session_request \<Rightarrow> (graphql \<times> form) option" where
  "session_api request =
     (case authenticate_admin request of
        Throws e \<Rightarrow> None
      | Returns admin \<Rightarrow>
          (case formData request of
             Throws e \<Rightarrow> None
           | Returns fd \<Rightarrow> (case admin of None \<Rightarrow> None | Some gql \<Rightarrow> Some (gql, fd))))"

definition prototype_api :: "prototype_env \<Rightarrow> (graphql \<times> form) option" where
  "prototype_api env =
     (case formData_env env of
        Throws e \<Rightarrow> None
      | Returns fd \<Rightarrow>
          (case (SHOPIFY_SHOP env, SHOPIFY_ACCESS_TOKEN env) of
             (Some shop, Some accessToken) \<Rightarrow>
               if shop = [] \<or> accessToken = [] then None
               else Some (shopifyGraphQL (fetch env) shop accessToken, fd)
           | _ \<Rightarrow> None))"

definition fetched :: "graphql \<Rightarrow> form \<Rightarrow> collection \<Rightarrow> bool" where
  "fetched gql fd c =
     (case gql 0 (GetCollection (collectionId fd) 100) of
        Throws e \<Rightarrow> False
      | Returns d \<Rightarrow> data_collection d = Some c)"

text \<open>Both upfront guards pass: the collection is found and is manually sorted.\<close>

definition session_proceeds :: "session_request \<Rightarrow> graphql \<Rightarrow> form \<Rightarrow> collection \<Rightarrow> bool" where
  "session_proceeds request gql fd c \<longleftrightarrow>
     session_api request = Some (gql, fd) \<and> fetched gql fd c \<and> sortOrder c = ''MANUAL''"

definition prototype_proceeds :: "prototype_env \<Rightarrow> graphql \<Rightarrow> form \<Rightarrow> collection \<Rightarrow> bool" where
  "prototype_proceeds env gql fd c \<longleftrightarrow>
     prototype_api env = Some (gql, fd) \<and> fetched gql fd c \<and> sortOrder c = ''MANUAL''"

subsection \<open>Scenarios\<close>

text \<open>
  The scenario of the specification: collection "best-sellers", manually sorted, with the
  products A, B, C. \<open>scripted c bad\<close> is an API handle that answers the fetch with \<open>c\<close>
  and throws a transport error on the calls whose positions are listed in \<open>bad\<close>.
\<close>

definition best_sellers :: collection where
  "best_sellers =
     \<lparr>collection_id = ''gid://shopify/Collection/7'', handle = ''best-sellers'',
      sortOrder = ''MANUAL'',
      products =
        [\<lparr>node_id = ''gid://shopify/Product/A'', node_title = ''A''\<rparr>,
         \<lparr>node_id = ''gid://shopify/Product/B'', node_title = ''B''\<rparr>,
         \<lparr>node_id = ''gid://shopify/Product/C'', node_title = ''C''\<rparr>]\<rparr>"

definition best_sellers_form :: form where
  "best_sellers_form =
     \<lparr>collectionId = ''gid://shopify/Collection/7'', collectionHandle = ''best-sellers''\<rparr>"

definition transport_error :: js_error where
  "transport_error = \<lparr>message = Some ''fetch failed'', status = None\<rparr>"

definition scripted :: "collection option \<Rightarrow> nat list \<Rightarrow> graphql" where
  "scripted c bad k call =
     (if k \<in> set bad then Throws transport_error
      else Returns \<lparr>data_collection = (case call of GetCollection cid n \<Rightarrow> c | _ \<Rightarrow> None),
                    userErrors = []\<rparr>)"

text \<open>The same handle throwing a given error, such as one with \<^verbatim>\<open>status\<close> 401.\<close>

definition scripted_error :: "js_error \<Rightarrow> collection option \<Rightarrow> nat list \<Rightarrow> graphql" where
  "scripted_error err c bad k call =
     (if k \<in> set bad then Throws err else scripted c [] k call)"

text \<open>
  A handle that answers the fetch with \<open>c\<close> and every mutation with a body that carries
  a \<^verbatim>\<open>userErrors\<close> entry, as the platform does for an input it rejects.
\<close>

definition rejecting :: "collection option \<Rightarrow> graphql" where
  "rejecting c k call =
     Returns
       (case call of
          GetCollection cid n \<Rightarrow> \<lparr>data_collection = c, userErrors = []\<rparr>
        | _ \<Rightarrow> \<lparr>data_collection = None,
                userErrors = [\<lparr>ue_field = [''input'', ''metafields''],
                               ue_message = ''Value must be an integer.''\<rparr>]\<rparr>)"

definition session_with :: "graphql \<Rightarrow> session_request" where
  "session_with gql =
     \<lparr>authenticate_admin = Returns (Some gql), formData = Returns best_sellers_form,
      clock = ''2024-05-01T12:00:00.000Z''\<rparr>"

definition prototype_with :: "graphql \<Rightarrow> prototype_env" where
  "prototype_with gql =
     \<lparr>SHOPIFY_SHOP = Some ''example.myshopify.com'', SHOPIFY_ACCESS_TOKEN = Some ''shpat_1'',
      formData_env = Returns best_sellers_form, fetch = (\<lambda>shop accessToken. gql)\<rparr>"

text \<open>
  A shop whose collection has 101 members, and the API handle that answers the fetch as
  the platform does.
\<close>

definition large_collection :: collection where
  "large_collection =
     \<lparr>collection_id = ''gid://shopify/Collection/7'', handle = ''best-sellers'',
      sortOrder = ''MANUAL'',
      products = map (\<lambda>i. \<lparr>node_id = ''gid://shopify/Product/'' @ toString i,
                            node_title = ''P'' @ toString i\<rparr>) [0..<101]\<rparr>"

definition large_shop :: "string \<Rightarrow> collection option" where
  "large_shop cid = (if cid = ''gid://shopify/Collection/7'' then Some large_collection else None)"

definition platform_api :: "(string \<Rightarrow> collection option) \<Rightarrow> graphql" where
  "platform_api shop k call =
     (case call of
        GetCollection cid n \<Rightarrow> platform_collection shop cid n
      | _ \<Rightarrow> Returns \<lparr>data_collection = None, userErrors = []\<rparr>)"

section \<open>Decimal text\<close>

lemma digit_value_digit:
  assumes "n < 10"
  shows "digit_value (digit n) = n"
proof -
  have "list_all (\<lambda>k. digit_value (digit k) = k) [0..<10]"
    by code_simp
  with assms show ?thesis by (simp add: list_all_iff)
qed

lemma decimal_snoc: "decimal (s @ [ch]) = 10 * decimal s + digit_value ch"
  by (simp add: decimal_def)

lemma decimal_toString: "decimal (toString n) = n"
proof (induction n rule: toString.induct)
  case (1 n)
  show ?case
  proof (cases "n < 10")
    case True
    then show ?thesis
      by (subst toString.simps) (simp add: decimal_def digit_value_digit)
  next
    case False
    with 1 have "decimal (toString (n div 10)) = n div 10" by simp
    with False show ?thesis
      by (subst toString.simps) (simp add: decimal_snoc digit_value_digit)
  qed
qed

lemma toString_inj: "toString m = toString n \<Longrightarrow> m = n"
  by (metis decimal_toString)

section \<open>The loop, step by step and as a whole\<close>

lemma rank_loop_step:
  assumes "i < length ps"
  shows "rank_loop gql hdl ps i (res, calls) =
     (case gql (length calls) (rank_write hdl (ps ! i) i) of
        Returns d \<Rightarrow>
          rank_loop gql hdl ps (Suc i)
            (res\<lparr>success := success res + 1\<rparr>, calls @ [rank_write hdl (ps ! i) i])
      | Throws e \<Rightarrow>
          rank_loop gql hdl ps (Suc i)
            (res\<lparr>failed := failed res + 1, errors := errors res @ [entry_of (ps ! i) e]\<rparr>,
             calls @ [rank_write hdl (ps ! i) i]))"
  using assms
  by (subst rank_loop.simps)
     (simp add: setProductMetafield_def rank_write_def entry_of_def Let_def split: outcome.splits)

lemma rank_loop_done:
  assumes "\<not> i < length ps"
  shows "rank_loop gql hdl ps i (res, calls) = (res, calls)"
  using assms by (subst rank_loop.simps) simp

text \<open>
  The loop from index \<open>i\<close>, when \<open>b\<close> calls were issued before it started: the counters
  grow by the numbers of returning and throwing writes, the diagnostics of the throwing
  ones are appended in order, and one call per remaining product is issued.
\<close>

lemma rank_loop_run:
  assumes "length calls = b + i"
  shows "rank_loop gql hdl ps i (res, calls) =
     (res\<lparr>success := success res +
            length (filter (\<lambda>j. \<not> is_Throws (gql (b + j) (rank_write hdl (ps ! j) j)))
                      [i..<length ps]),
          failed := failed res +
            length (filter (\<lambda>j. is_Throws (gql (b + j) (rank_write hdl (ps ! j) j)))
                      [i..<length ps]),
          errors := errors res @
            map (\<lambda>j. entry_of (ps ! j) (thrown (gql (b + j) (rank_write hdl (ps ! j) j))))
              (filter (\<lambda>j. is_Throws (gql (b + j) (rank_write hdl (ps ! j) j)))
                 [i..<length ps])\<rparr>,
      calls @ map (\<lambda>j. rank_write hdl (ps ! j) j) [i..<length ps])"
  using assms
proof (induction "length ps - i" arbitrary: i res calls)
  case 0
  then show ?case by (simp add: rank_loop_done)
next
  case (Suc n)
  then have lt: "i < length ps" and n: "n = length ps - Suc i" by simp_all
  have len: "length (calls @ [rank_write hdl (ps ! i) i]) = b + Suc i"
    using Suc.prems by simp
  show ?case
  proof (cases "gql (b + i) (rank_write hdl (ps ! i) i)")
    case (Throws e)
    then show ?thesis
      using lt Suc.prems Suc.hyps(1)[OF n len]
      by (simp add: rank_loop_step upt_conv_Cons)
  next
    case (Returns d)
    then show ?thesis
      using lt Suc.prems Suc.hyps(1)[OF n len]
      by (simp add: rank_loop_step upt_conv_Cons)
  qed
qed

lemma rank_loop_from_fetch:
  "rank_loop gql hdl ps 0 (\<lparr>success = 0, failed = 0, errors = []\<rparr>, [q]) =
     (tally gql hdl ps, q # rank_writes hdl ps)"
  using rank_loop_run [of "[q]" 1 0 gql hdl ps "\<lparr>success = 0, failed = 0, errors = []\<rparr>"]
  by (simp add: tally_def failing_def write_outcome_def rank_writes_def)

text \<open>
  From any state the loop only adds: the failure counter does not shrink, earlier
  diagnostics stay in front, and one call per remaining product is issued.
\<close>

lemma rank_loop_grows:
  "failed res \<le> failed (fst (rank_loop gql hdl ps i (res, calls))) \<and>
   prefix (errors res) (errors (fst (rank_loop gql hdl ps i (res, calls)))) \<and>
   snd (rank_loop gql hdl ps i (res, calls)) =
     calls @ map (\<lambda>j. rank_write hdl (ps ! j) j) [i..<length ps]"
proof (induction "length ps - i" arbitrary: i res calls)
  case 0
  then show ?case by (simp add: rank_loop_done)
next
  case (Suc n)
  then have lt: "i < length ps" and n: "n = length ps - Suc i" by simp_all
  show ?case
  proof (cases "gql (length calls) (rank_write hdl (ps ! i) i)")
    case (Throws e)
    from Suc.hyps(1) [OF n, of "res\<lparr>failed := failed res + 1,
        errors := errors res @ [entry_of (ps ! i) e]\<rparr>" "calls @ [rank_write hdl (ps ! i) i]"]
    show ?thesis
      using lt Throws by (auto simp: rank_loop_step upt_conv_Cons dest: append_prefixD)
  next
    case (Returns d)
    from Suc.hyps(1) [OF n, of "res\<lparr>success := success res + 1\<rparr>"
        "calls @ [rank_write hdl (ps ! i) i]"]
    show ?thesis
      using lt Returns by (auto simp: rank_loop_step upt_conv_Cons)
  qed
qed

section \<open>The actions once both guards have passed\<close>

lemma action_session_run:
  assumes "session_proceeds request gql fd c"
  shows "action_session request =
     (case gql (Suc (length (products c))) (rendered_at (collectionId fd) (clock request)) of
        Throws e \<Rightarrow> catch_session e
      | Returns d \<Rightarrow>
          ResultJson True (tally gql (collectionHandle fd) (products c))
            (summary (tally gql (collectionHandle fd) (products c))),
      GetCollection (collectionId fd) 100 # rank_writes (collectionHandle fd) (products c) @
        [rendered_at (collectionId fd) (clock request)])"
  using assms
  by (auto simp: action_session_def session_proceeds_def session_api_def fetched_def
        rank_loop_from_fetch rank_writes_def Let_def split: outcome.splits option.splits)

lemma action_prototype_run:
  assumes "prototype_proceeds env gql fd c"
  shows "action_prototype env =
     (Returns (ResultJson True (tally gql (collectionHandle fd) (products c))
                 (summary (tally gql (collectionHandle fd) (products c)))),
      GetCollection (collectionId fd) 100 # rank_writes (collectionHandle fd) (products c))"
  using assms
  by (auto simp: action_prototype_def prototype_proceeds_def prototype_api_def fetched_def
        rank_loop_from_fetch Let_def split: outcome.splits option.splits if_splits)

section \<open>The scenarios reach the fetch\<close>

lemma session_api_with: "session_api (session_with g) = Some (g, best_sellers_form)"
  by (simp add: session_api_def session_with_def)

lemma shopifyGraphQL_handle: "shopifyGraphQL ftch shop accessToken = ftch shop accessToken"
  by (intro ext) (simp add: shopifyGraphQL_def)

lemma prototype_api_with: "prototype_api (prototype_with g) = Some (g, best_sellers_form)"
  by (simp add: prototype_api_def prototype_with_def shopifyGraphQL_handle)

lemma fetched_scripted: "0 \<notin> set bad \<Longrightarrow> fetched (scripted (Some c) bad) fd c"
  by (simp add: fetched_def scripted_def)

lemma session_proceeds_with:
  "0 \<notin> set bad \<Longrightarrow> sortOrder c = ''MANUAL'' \<Longrightarrow>
   session_proceeds (session_with (scripted (Some c) bad)) (scripted (Some c) bad) best_sellers_form c"
  by (simp add: session_proceeds_def session_api_with fetched_scripted)

lemma prototype_proceeds_with:
  "0 \<notin> set bad \<Longrightarrow> sortOrder c = ''MANUAL'' \<Longrightarrow>
   prototype_proceeds (prototype_with (scripted (Some c) bad)) (scripted (Some c) bad) best_sellers_form c"
  by (simp add: prototype_proceeds_def prototype_api_with fetched_scripted)

lemma upt_3: "[0..<3] = [0, 1, 2]"
  by (simp add: upt_rec)

lemma toString_small:
  "toString 0 = ''0''" "toString 1 = ''1''" "toString 2 = ''2''" "toString 3 = ''3''"
  "toString (Suc 0) = ''1''" "toString (Suc (Suc 0)) = ''2''"
  "toString (Suc (Suc (Suc 0))) = ''3''"
  by (simp_all add: toString.simps digit_def)

lemma clock_session_with: "clock (session_with g) = ''2024-05-01T12:00:00.000Z''"
  by (simp add: session_with_def)

section \<open>What the outcomes of the writes add up to\<close>

lemma tally_counts:
  "success (tally gql hdl ps) + failed (tally gql hdl ps) = length ps"
  "length (errors (tally gql hdl ps)) = failed (tally gql hdl ps)"
  using sum_length_filter_compl [of "\<lambda>j. is_Throws (write_outcome gql hdl ps j)" "[0..<length ps]"]
  by (simp_all add: tally_def failing_def)

lemma tally_no_failure:
  assumes "\<forall>j<length ps. \<not> is_Throws (write_outcome gql hdl ps j)"
  shows "tally gql hdl ps = \<lparr>success = length ps, failed = 0, errors = []\<rparr>"
proof -
  have "failing gql hdl ps = []"
    using assms by (auto simp: failing_def filter_empty_conv)
  moreover have "filter (\<lambda>j. \<not> is_Throws (write_outcome gql hdl ps j)) [0..<length ps] = [0..<length ps]"
    using assms by (auto simp: filter_id_conv)
  ultimately show ?thesis by (simp add: tally_def)
qed

lemma filter_upt_only:
  assumes "k < n" and "\<forall>j<n. P j \<longleftrightarrow> j = k"
  shows "filter P [0..<n] = [k]"
proof -
  have "filter P [0..<n] = filter (\<lambda>j. j = k) [0..<n]"
    using assms(2) by (intro filter_cong) auto
  moreover have "[0..<n] = [0..<k] @ k # [Suc k..<n]"
    using assms(1) by (metis le0 upt_add_eq_append upt_conv_Cons le_add_diff_inverse less_imp_le_nat)
  moreover have "filter (\<lambda>j. j = k) ([0..<k] @ k # [Suc k..<n]) = [k]"
    by (auto simp: filter_empty_conv)
  ultimately show ?thesis by simp
qed

lemma tally_one_failure:
  assumes "k < length ps" and "write_outcome gql hdl ps k = Throws e"
    and "\<forall>j<length ps. j \<noteq> k \<longrightarrow> \<not> is_Throws (write_outcome gql hdl ps j)"
  shows "tally gql hdl ps =
    \<lparr>success = length ps - 1, failed = 1, errors = [entry_of (ps ! k) e]\<rparr>"
proof -
  have f: "failing gql hdl ps = [k]"
    unfolding failing_def using assms by (intro filter_upt_only) auto
  have "success (tally gql hdl ps) + failed (tally gql hdl ps) = length ps"
    by (rule tally_counts)
  then have "success (tally gql hdl ps) = length ps - 1"
    using f by (simp add: tally_def)
  then show ?thesis
    using f assms(2) by (simp add: tally_def)
qed

lemma rank_writes_unfold:
  "rank_writes hdl ps =
     map (\<lambda>i. ProductUpdate (node_id (ps ! i))
            \<lparr>mf_namespace = ''custom'', mf_key = hdl @ ''_rank'', mf_type = ''number_integer'',
             mf_value = toString (i + 1)\<rparr>) [0..<length ps]"
  by (simp add: rank_writes_def rank_write_def)

section \<open>The best-sellers scenario\<close>

lemma best_sellers_writes:
  "rank_writes ''best-sellers'' (products best_sellers) =
     [ProductUpdate ''gid://shopify/Product/A''
        \<lparr>mf_namespace = ''custom'', mf_key = ''best-sellers_rank'',
         mf_type = ''number_integer'', mf_value = ''1''\<rparr>,
      ProductUpdate ''gid://shopify/Product/B''
        \<lparr>mf_namespace = ''custom'', mf_key = ''best-sellers_rank'',
         mf_type = ''number_integer'', mf_value = ''2''\<rparr>,
      ProductUpdate ''gid://shopify/Product/C''
        \<lparr>mf_namespace = ''custom'', mf_key = ''best-sellers_rank'',
         mf_type = ''number_integer'', mf_value = ''3''\<rparr>]"
  by (simp add: rank_writes_unfold best_sellers_def upt_3 toString_small)

lemma best_sellers_length: "length (products best_sellers) = 3"
  by (simp add: best_sellers_def)

lemma best_sellers_manual: "sortOrder best_sellers = ''MANUAL''"
  by (simp add: best_sellers_def)

lemma fetched_scripted_error: "0 \<notin> set bad \<Longrightarrow> fetched (scripted_error err (Some c) bad) fd c"
  by (simp add: fetched_def scripted_error_def scripted_def)

lemma session_proceeds_with_error:
  "0 \<notin> set bad \<Longrightarrow> sortOrder c = ''MANUAL'' \<Longrightarrow>
   session_proceeds (session_with (scripted_error err (Some c) bad))
     (scripted_error err (Some c) bad) best_sellers_form c"
  by (simp add: session_proceeds_def session_api_with fetched_scripted_error)

lemma tally_best_sellers_B:
  "tally (scripted (Some best_sellers) [2]) ''best-sellers'' (products best_sellers) =
     \<lparr>success = 2, failed = 1,
      errors = [\<lparr>productId = ''gid://shopify/Product/B'', title = ''B'',
                 error = Some ''fetch failed''\<rparr>]\<rparr>"
  by (simp add: tally_def failing_def write_outcome_def scripted_def best_sellers_def upt_3
        entry_of_def transport_error_def)

lemma tally_best_sellers_all_fail:
  "1 \<in> set bad \<Longrightarrow> 2 \<in> set bad \<Longrightarrow> 3 \<in> set bad \<Longrightarrow>
   tally (scripted (Some best_sellers) bad) ''best-sellers'' (products best_sellers) =
     \<lparr>success = 0, failed = 3,
      errors = [\<lparr>productId = ''gid://shopify/Product/A'', title = ''A'',
                 error = Some ''fetch failed''\<rparr>,
                \<lparr>productId = ''gid://shopify/Product/B'', title = ''B'',
                 error = Some ''fetch failed''\<rparr>,
                \<lparr>productId = ''gid://shopify/Product/C'', title = ''C'',
                 error = Some ''fetch failed''\<rparr>]\<rparr>"
  by (simp add: tally_def failing_def write_outcome_def scripted_def best_sellers_def upt_3
        entry_of_def transport_error_def numeral_2_eq_2 numeral_3_eq_3)

section \<open>The upfront guards\<close>

text \<open>
  Claim C4. When the fetched collection's sort order is anything but \<^verbatim>\<open>"MANUAL"\<close>, the
  action answers \<^verbatim>\<open>{ error: "Collection is not manual sort" }\<close> with status 400 (the
  InvalidState condition), an answer that carries no results object, and the only call it
  has issued is the fetch: no write mutation. This holds for the session variant and for
  the prototype.
\<close>

theorem C4_not_manual:
  "(session_api request = Some (gql, fd) \<and> fetched gql fd c \<and> sortOrder c \<noteq> ''MANUAL'' \<longrightarrow>
      action_session request =
        (ErrorJson ''Collection is not manual sort'' 400, [GetCollection (collectionId fd) 100])) \<and>
   (prototype_api env = Some (gql', fd') \<and> fetched gql' fd' c' \<and> sortOrder c' \<noteq> ''MANUAL'' \<longrightarrow>
      action_prototype env =
        (Returns (ErrorJson ''Collection is not manual sort'' 400),
         [GetCollection (collectionId fd') 100]))"
proof (intro conjI impI)
  assume "session_api request = Some (gql, fd) \<and> fetched gql fd c \<and> sortOrder c \<noteq> ''MANUAL''"
  then show "action_session request =
        (ErrorJson ''Collection is not manual sort'' 400, [GetCollection (collectionId fd) 100])"
    by (auto simp: action_session_def session_api_def fetched_def Let_def
          split: outcome.splits option.splits)
next
  assume "prototype_api env = Some (gql', fd') \<and> fetched gql' fd' c' \<and> sortOrder c' \<noteq> ''MANUAL''"
  then show "action_prototype env =
        (Returns (ErrorJson ''Collection is not manual sort'' 400),
         [GetCollection (collectionId fd') 100])"
    by (auto simp: action_prototype_def prototype_api_def fetched_def Let_def
          split: outcome.splits option.splits if_splits)
qed

theorem C4_not_manual_witness:
  "sortOrder (best_sellers\<lparr>sortOrder := ''BEST_SELLING''\<rparr>) \<noteq> ''MANUAL'' \<and>
   action_session (session_with (scripted (Some (best_sellers\<lparr>sortOrder := ''BEST_SELLING''\<rparr>)) [])) =
     (ErrorJson ''Collection is not manual sort'' 400,
      [GetCollection ''gid://shopify/Collection/7'' 100]) \<and>
   action_prototype (prototype_with (scripted (Some (best_sellers\<lparr>sortOrder := ''BEST_SELLING''\<rparr>)) [])) =
     (Returns (ErrorJson ''Collection is not manual sort'' 400),
      [GetCollection ''gid://shopify/Collection/7'' 100])"
proof -
  let ?c = "best_sellers\<lparr>sortOrder := ''BEST_SELLING''\<rparr>"
  let ?g = "scripted (Some ?c) []"
  have n: "sortOrder ?c \<noteq> ''MANUAL''" by simp
  have f: "fetched ?g best_sellers_form ?c" by (simp add: fetched_scripted)
  from C4_not_manual [of "session_with ?g" ?g best_sellers_form ?c "prototype_with ?g" ?g
      best_sellers_form ?c] n f
  show ?thesis
    by (simp add: session_api_with prototype_api_with best_sellers_form_def)
qed

text \<open>
  Claim C5. When the fetch returns no collection for the identifier, the action answers
  \<^verbatim>\<open>{ error: "Collection not found" }\<close> with status 404 (the NotFound condition), an
  answer that carries no results object, and the only call it has issued is the fetch: no
  write mutation. This holds for the session variant and for the prototype.
\<close>

theorem C5_not_found:
  "(session_api request = Some (gql, fd) \<and>
    gql 0 (GetCollection (collectionId fd) 100) = Returns d \<and> data_collection d = None \<longrightarrow>
      action_session request =
        (ErrorJson ''Collection not found'' 404, [GetCollection (collectionId fd) 100])) \<and>
   (prototype_api env = Some (gql', fd') \<and>
    gql' 0 (GetCollection (collectionId fd') 100) = Returns d' \<and> data_collection d' = None \<longrightarrow>
      action_prototype env =
        (Returns (ErrorJson ''Collection not found'' 404),
         [GetCollection (collectionId fd') 100]))"
proof (intro conjI impI)
  assume "session_api request = Some (gql, fd) \<and>
    gql 0 (GetCollection (collectionId fd) 100) = Returns d \<and> data_collection d = None"
  then show "action_session request =
        (ErrorJson ''Collection not found'' 404, [GetCollection (collectionId fd) 100])"
    by (auto simp: action_session_def session_api_def Let_def
          split: outcome.splits option.splits)
next
  assume "prototype_api env = Some (gql', fd') \<and>
    gql' 0 (GetCollection (collectionId fd') 100) = Returns d' \<and> data_collection d' = None"
  then show "action_prototype env =
        (Returns (ErrorJson ''Collection not found'' 404),
         [GetCollection (collectionId fd') 100])"
    by (auto simp: action_prototype_def prototype_api_def Let_def
          split: outcome.splits option.splits if_splits)
qed

theorem C5_not_found_witness:
  "scripted None [] 0 (GetCollection ''gid://shopify/Collection/7'' 100) =
     Returns \<lparr>data_collection = None, userErrors = []\<rparr> \<and>
   action_session (session_with (scripted None [])) =
     (ErrorJson ''Collection not found'' 404, [GetCollection ''gid://shopify/Collection/7'' 100]) \<and>
   action_prototype (prototype_with (scripted None [])) =
     (Returns (ErrorJson ''Collection not found'' 404),
      [GetCollection ''gid://shopify/Collection/7'' 100])"
proof -
  let ?g = "scripted None []"
  let ?d = "\<lparr>data_collection = None, userErrors = []\<rparr>"
  have a: "?g 0 (GetCollection (collectionId best_sellers_form) 100) = Returns ?d"
    by (simp add: scripted_def)
  from C5_not_found [of "session_with ?g" ?g best_sellers_form ?d "prototype_with ?g" ?g
      best_sellers_form ?d] a
  show ?thesis
    by (simp add: session_api_with prototype_api_with best_sellers_form_def)
qed

section \<open>The ranks written\<close>

text \<open>
  Claim C1, as the code has it. Let both guards pass and let every product write of the
  run return. Then the calls issued after the fetch are exactly one
  \<^verbatim>\<open>productUpdate\<close> per product, in list order, each setting the
  \<^verbatim>\<open>number_integer\<close> metafield \<^verbatim>\<open><handle>_rank\<close> of namespace
  \<^verbatim>\<open>custom\<close> to the decimal text of \<open>i + 1\<close> for the product at 0-based index \<open>i\<close>
  (in the session variant followed by the stamp of the collection). The prototype answers
  with \<open>success = N\<close>, \<open>failed = 0\<close> and no errors; the session variant answers so
  when its closing stamp call returns. The theorem holds for every length \<open>N\<close> of the
  fetched list, so in particular for \<open>N \<le> 100\<close>.
\<close>

theorem C1_all_writes_return:
  "(session_proceeds request gql fd c \<and>
    (\<forall>j<length (products c). \<not> is_Throws (write_outcome gql (collectionHandle fd) (products c) j)) \<longrightarrow>
      snd (action_session request) =
        GetCollection (collectionId fd) 100 #
        map (\<lambda>i. ProductUpdate (node_id (products c ! i))
               \<lparr>mf_namespace = ''custom'', mf_key = collectionHandle fd @ ''_rank'',
                mf_type = ''number_integer'', mf_value = toString (i + 1)\<rparr>)
          [0..<length (products c)] @
        [rendered_at (collectionId fd) (clock request)] \<and>
      (\<not> is_Throws (gql (Suc (length (products c)))
            (rendered_at (collectionId fd) (clock request))) \<longrightarrow>
         fst (action_session request) =
           ResultJson True \<lparr>success = length (products c), failed = 0, errors = []\<rparr>
             (''Successfully updated '' @ toString (length (products c)) @ '' products''))) \<and>
   (prototype_proceeds env gql' fd' c' \<and>
    (\<forall>j<length (products c'). \<not> is_Throws (write_outcome gql' (collectionHandle fd') (products c') j)) \<longrightarrow>
      action_prototype env =
        (Returns (ResultJson True \<lparr>success = length (products c'), failed = 0, errors = []\<rparr>
                    (''Successfully updated '' @ toString (length (products c')) @ '' products'')),
         GetCollection (collectionId fd') 100 #
         map (\<lambda>i. ProductUpdate (node_id (products c' ! i))
                \<lparr>mf_namespace = ''custom'', mf_key = collectionHandle fd' @ ''_rank'',
                 mf_type = ''number_integer'', mf_value = toString (i + 1)\<rparr>)
           [0..<length (products c')]))"
proof (intro conjI impI)
  assume a: "session_proceeds request gql fd c \<and>
    (\<forall>j<length (products c). \<not> is_Throws (write_outcome gql (collectionHandle fd) (products c) j))"
  then have run: "action_session request = 
     (case gql (Suc (length (products c))) (rendered_at (collectionId fd) (clock request)) of
        Throws e \<Rightarrow> catch_session e
      | Returns d \<Rightarrow>
          ResultJson True (tally gql (collectionHandle fd) (products c))
            (summary (tally gql (collectionHandle fd) (products c))),
      GetCollection (collectionId fd) 100 # rank_writes (collectionHandle fd) (products c) @
        [rendered_at (collectionId fd) (clock request)])"
    by (intro action_session_run) simp
  from a have t: "tally gql (collectionHandle fd) (products c) =
      \<lparr>success = length (products c), failed = 0, errors = []\<rparr>"
    by (intro tally_no_failure) simp
  show "snd (action_session request) =
        GetCollection (collectionId fd) 100 #
        map (\<lambda>i. ProductUpdate (node_id (products c ! i))
               \<lparr>mf_namespace = ''custom'', mf_key = collectionHandle fd @ ''_rank'',
                mf_type = ''number_integer'', mf_value = toString (i + 1)\<rparr>)
          [0..<length (products c)] @
        [rendered_at (collectionId fd) (clock request)]"
    by (simp add: run rank_writes_unfold)
  assume "\<not> is_Throws (gql (Suc (length (products c)))
            (rendered_at (collectionId fd) (clock request)))"
  then show "fst (action_session request) =
           ResultJson True \<lparr>success = length (products c), failed = 0, errors = []\<rparr>
             (''Successfully updated '' @ toString (length (products c)) @ '' products'')"
    by (auto simp: run t summary_def split: outcome.splits)
next
  assume a: "prototype_proceeds env gql' fd' c' \<and>
    (\<forall>j<length (products c'). \<not> is_Throws (write_outcome gql' (collectionHandle fd') (products c') j))"
  then have t: "tally gql' (collectionHandle fd') (products c') =
      \<lparr>success = length (products c'), failed = 0, errors = []\<rparr>"
    by (intro tally_no_failure) simp
  from a have "prototype_proceeds env gql' fd' c'" by simp
  from action_prototype_run [OF this]
  show "action_prototype env =
        (Returns (ResultJson True \<lparr>success = length (products c'), failed = 0, errors = []\<rparr>
                    (''Successfully updated '' @ toString (length (products c')) @ '' products'')),
         GetCollection (collectionId fd') 100 #
         map (\<lambda>i. ProductUpdate (node_id (products c' ! i))
                \<lparr>mf_namespace = ''custom'', mf_key = collectionHandle fd' @ ''_rank'',
                 mf_type = ''number_integer'', mf_value = toString (i + 1)\<rparr>)
           [0..<length (products c')])"
    by (simp add: t summary_def rank_writes_unfold)
qed

text \<open>The scenario of the specification: best-sellers with A, B, C, every call returning.\<close>

theorem C1_all_writes_return_witness:
  "action_session (session_with (scripted (Some best_sellers) [])) =
     (ResultJson True \<lparr>success = 3, failed = 0, errors = []\<rparr> ''Successfully updated 3 products'',
      [GetCollection ''gid://shopify/Collection/7'' 100,
       ProductUpdate ''gid://shopify/Product/A''
         \<lparr>mf_namespace = ''custom'', mf_key = ''best-sellers_rank'',
          mf_type = ''number_integer'', mf_value = ''1''\<rparr>,
       ProductUpdate ''gid://shopify/Product/B''
         \<lparr>mf_namespace = ''custom'', mf_key = ''best-sellers_rank'',
          mf_type = ''number_integer'', mf_value = ''2''\<rparr>,
       ProductUpdate ''gid://shopify/Product/C''
         \<lparr>mf_namespace = ''custom'', mf_key = ''best-sellers_rank'',
          mf_type = ''number_integer'', mf_value = ''3''\<rparr>,
       CollectionUpdate ''gid://shopify/Collection/7''
         \<lparr>mf_namespace = ''custom'', mf_key = ''rendered_at'',
          mf_type = ''single_line_text_field'', mf_value = ''2024-05-01T12:00:00.000Z''\<rparr>]) \<and>
   action_prototype (prototype_with (scripted (Some best_sellers) [])) =
     (Returns (ResultJson True \<lparr>success = 3, failed = 0, errors = []\<rparr>
                 ''Successfully updated 3 products''),
      [GetCollection ''gid://shopify/Collection/7'' 100,
       ProductUpdate ''gid://shopify/Product/A''
         \<lparr>mf_namespace = ''custom'', mf_key = ''best-sellers_rank'',
          mf_type = ''number_integer'', mf_value = ''1''\<rparr>,
       ProductUpdate ''gid://shopify/Product/B''
         \<lparr>mf_namespace = ''custom'', mf_key = ''best-sellers_rank'',
          mf_type = ''number_integer'', mf_value = ''2''\<rparr>,
       ProductUpdate ''gid://shopify/Product/C''
         \<lparr>mf_namespace = ''custom'', mf_key = ''best-sellers_rank'',
          mf_type = ''number_integer'', mf_value = ''3''\<rparr>])"
proof -
  let ?g = "scripted (Some best_sellers) []"
  have m: "sortOrder best_sellers = ''MANUAL''" by (simp add: best_sellers_def)
  have s: "session_proceeds (session_with ?g) ?g best_sellers_form best_sellers"
    and p: "prototype_proceeds (prototype_with ?g) ?g best_sellers_form best_sellers"
    using m by (simp_all add: session_proceeds_with prototype_proceeds_with)
  have w: "\<forall>j<length (products best_sellers).
      \<not> is_Throws (write_outcome ?g (collectionHandle best_sellers_form) (products best_sellers) j)"
    by (simp add: write_outcome_def scripted_def)
  have r: "\<not> is_Throws (?g (Suc (length (products best_sellers)))
              (rendered_at (collectionId best_sellers_form) (clock (session_with ?g))))"
    by (simp add: scripted_def)
  have n: "length (products best_sellers) = 3" by (simp add: best_sellers_def)
  from C1_all_writes_return [of "session_with ?g" ?g best_sellers_form best_sellers
      "prototype_with ?g" ?g best_sellers_form best_sellers] s p w r
  have "snd (action_session (session_with ?g)) =
        GetCollection (collectionId best_sellers_form) 100 #
        map (\<lambda>i. ProductUpdate (node_id (products best_sellers ! i))
               \<lparr>mf_namespace = ''custom'', mf_key = collectionHandle best_sellers_form @ ''_rank'',
                mf_type = ''number_integer'', mf_value = toString (i + 1)\<rparr>)
          [0..<3] @
        [rendered_at (collectionId best_sellers_form) (clock (session_with ?g))]"
    and "fst (action_session (session_with ?g)) =
           ResultJson True \<lparr>success = 3, failed = 0, errors = []\<rparr>
             (''Successfully updated '' @ toString 3 @ '' products'')"
    and "action_prototype (prototype_with ?g) =
        (Returns (ResultJson True \<lparr>success = 3, failed = 0, errors = []\<rparr>
                    (''Successfully updated '' @ toString 3 @ '' products'')),
         GetCollection (collectionId best_sellers_form) 100 #
         map (\<lambda>i. ProductUpdate (node_id (products best_sellers ! i))
                \<lparr>mf_namespace = ''custom'', mf_key = collectionHandle best_sellers_form @ ''_rank'',
                 mf_type = ''number_integer'', mf_value = toString (i + 1)\<rparr>)
           [0..<3])"
    unfolding n by blast+
  then show ?thesis
    by (simp add: prod_eq_iff upt_3 toString_small best_sellers_def best_sellers_form_def
          rendered_at_def session_with_def)
qed

text \<open>
  The claim as stated promises the result for every run in which the product writes
  succeed. In the session variant the stamp of the collection is awaited inside the outer
  \<^verbatim>\<open>try\<close> (part_003 lines 148-163): when that call throws, the three writes have
  been issued and have returned, and the action answers with status 500 and no results.
\<close>

theorem C1_stamp_throws_counterexample:
  "session_proceeds (session_with (scripted (Some best_sellers) [4]))
     (scripted (Some best_sellers) [4]) best_sellers_form best_sellers \<and>
   length (products best_sellers) = 3 \<and>
   failing (scripted (Some best_sellers) [4]) (collectionHandle best_sellers_form)
     (products best_sellers) = [] \<and>
   fst (action_session (session_with (scripted (Some best_sellers) [4]))) =
     ErrorJson ''fetch failed'' 500"
proof -
  let ?g = "scripted (Some best_sellers) [4]"
  have m: "sortOrder best_sellers = ''MANUAL''" by (simp add: best_sellers_def)
  have s: "session_proceeds (session_with ?g) ?g best_sellers_form best_sellers"
    using m by (simp add: session_proceeds_with)
  have n: "length (products best_sellers) = 3" by (simp add: best_sellers_def)
  have f: "failing ?g (collectionHandle best_sellers_form) (products best_sellers) = []"
    by (simp add: failing_def n upt_3 write_outcome_def scripted_def)
  have e: "fst (action_session (session_with ?g)) = ErrorJson ''fetch failed'' 500"
    by (simp add: action_session_run [OF s] n scripted_def catch_session_def
          message_or_default_def transport_error_def)
  from s n f e show ?thesis by blast
qed

section \<open>A failing write does not stop the loop\<close>

text \<open>
  Claim C2, as the code has it. Let both guards pass and let exactly one product write,
  the one for index \<open>k\<close>, throw. The loop still issues the write of every product, in
  order. The prototype answers with \<open>success = N - 1\<close>, \<open>failed = 1\<close> and the single
  diagnostic of product \<open>k\<close>; the session variant answers so when its closing stamp call
  returns.
\<close>

theorem C2_one_write_throws:
  "(session_proceeds request gql fd c \<and> k < length (products c) \<and>
    write_outcome gql (collectionHandle fd) (products c) k = Throws e \<and>
    (\<forall>j<length (products c). j \<noteq> k \<longrightarrow>
        \<not> is_Throws (write_outcome gql (collectionHandle fd) (products c) j)) \<longrightarrow>
      snd (action_session request) =
        GetCollection (collectionId fd) 100 # rank_writes (collectionHandle fd) (products c) @
        [rendered_at (collectionId fd) (clock request)] \<and>
      (\<not> is_Throws (gql (Suc (length (products c)))
            (rendered_at (collectionId fd) (clock request))) \<longrightarrow>
         fst (action_session request) =
           ResultJson True
             \<lparr>success = length (products c) - 1, failed = 1,
              errors = [\<lparr>productId = node_id (products c ! k),
                         title = node_title (products c ! k), error = message e\<rparr>]\<rparr>
             (''Successfully updated '' @ toString (length (products c) - 1) @
              '' products, 1 failed''))) \<and>
   (prototype_proceeds env gql' fd' c' \<and> k' < length (products c') \<and>
    write_outcome gql' (collectionHandle fd') (products c') k' = Throws e' \<and>
    (\<forall>j<length (products c'). j \<noteq> k' \<longrightarrow>
        \<not> is_Throws (write_outcome gql' (collectionHandle fd') (products c') j)) \<longrightarrow>
      action_prototype env =
        (Returns (ResultJson True
             \<lparr>success = length (products c') - 1, failed = 1,
              errors = [\<lparr>productId = node_id (products c' ! k'),
                         title = node_title (products c' ! k'), error = message e'\<rparr>]\<rparr>
             (''Successfully updated '' @ toString (length (products c') - 1) @
              '' products, 1 failed'')),
         GetCollection (collectionId fd') 100 #
         rank_writes (collectionHandle fd') (products c')))"
proof (intro conjI impI)
  assume a: "session_proceeds request gql fd c \<and> k < length (products c) \<and>
    write_outcome gql (collectionHandle fd) (products c) k = Throws e \<and>
    (\<forall>j<length (products c). j \<noteq> k \<longrightarrow>
        \<not> is_Throws (write_outcome gql (collectionHandle fd) (products c) j))"
  then have p: "session_proceeds request gql fd c" by simp
  from a have t: "tally gql (collectionHandle fd) (products c) =
      \<lparr>success = length (products c) - 1, failed = 1,
       errors = [entry_of (products c ! k) e]\<rparr>"
    by (intro tally_one_failure) simp_all
  show "snd (action_session request) =
        GetCollection (collectionId fd) 100 # rank_writes (collectionHandle fd) (products c) @
        [rendered_at (collectionId fd) (clock request)]"
    by (simp add: action_session_run [OF p])
  assume "\<not> is_Throws (gql (Suc (length (products c)))
            (rendered_at (collectionId fd) (clock request)))"
  then show "fst (action_session request) =
           ResultJson True
             \<lparr>success = length (products c) - 1, failed = 1,
              errors = [\<lparr>productId = node_id (products c ! k),
                         title = node_title (products c ! k), error = message e\<rparr>]\<rparr>
             (''Successfully updated '' @ toString (length (products c) - 1) @
              '' products, 1 failed'')"
    by (auto simp: action_session_run [OF p] t summary_def entry_of_def toString_small
          split: outcome.splits)
next
  assume a: "prototype_proceeds env gql' fd' c' \<and> k' < length (products c') \<and>
    write_outcome gql' (collectionHandle fd') (products c') k' = Throws e' \<and>
    (\<forall>j<length (products c'). j \<noteq> k' \<longrightarrow>
        \<not> is_Throws (write_outcome gql' (collectionHandle fd') (products c') j))"
  then have p: "prototype_proceeds env gql' fd' c'" by simp
  from a have t: "tally gql' (collectionHandle fd') (products c') =
      \<lparr>success = length (products c') - 1, failed = 1,
       errors = [entry_of (products c' ! k') e']\<rparr>"
    by (intro tally_one_failure) simp_all
  show "action_prototype env =
        (Returns (ResultJson True
             \<lparr>success = length (products c') - 1, failed = 1,
              errors = [\<lparr>productId = node_id (products c' ! k'),
                         title = node_title (products c' ! k'), error = message e'\<rparr>]\<rparr>
             (''Successfully updated '' @ toString (length (products c') - 1) @
              '' products, 1 failed'')),
         GetCollection (collectionId fd') 100 #
         rank_writes (collectionHandle fd') (products c'))"
    by (simp add: action_prototype_run [OF p] t summary_def entry_of_def toString_small)
qed

text \<open>Best-sellers with A, B, C, where the write for B (call 2) meets a transport error.\<close>

theorem C2_one_write_throws_witness:
  "write_outcome (scripted (Some best_sellers) [2]) ''best-sellers'' (products best_sellers) 1 =
     Throws transport_error \<and>
   action_session (session_with (scripted (Some best_sellers) [2])) =
     (ResultJson True
        \<lparr>success = 2, failed = 1,
         errors = [\<lparr>productId = ''gid://shopify/Product/B'', title = ''B'',
                    error = Some ''fetch failed''\<rparr>]\<rparr>
        ''Successfully updated 2 products, 1 failed'',
      GetCollection ''gid://shopify/Collection/7'' 100 #
      rank_writes ''best-sellers'' (products best_sellers) @
      [rendered_at ''gid://shopify/Collection/7'' ''2024-05-01T12:00:00.000Z'']) \<and>
   action_prototype (prototype_with (scripted (Some best_sellers) [2])) =
     (Returns (ResultJson True
        \<lparr>success = 2, failed = 1,
         errors = [\<lparr>productId = ''gid://shopify/Product/B'', title = ''B'',
                    error = Some ''fetch failed''\<rparr>]\<rparr>
        ''Successfully updated 2 products, 1 failed''),
      GetCollection ''gid://shopify/Collection/7'' 100 #
      rank_writes ''best-sellers'' (products best_sellers))"
proof -
  let ?g = "scripted (Some best_sellers) [2]"
  let ?ps = "products best_sellers"
  have s: "session_proceeds (session_with ?g) ?g best_sellers_form best_sellers"
    and p: "prototype_proceeds (prototype_with ?g) ?g best_sellers_form best_sellers"
    by (simp_all add: session_proceeds_with prototype_proceeds_with best_sellers_manual)
  have k: "1 < length ?ps" by (simp add: best_sellers_length)
  have t: "write_outcome ?g (collectionHandle best_sellers_form) ?ps 1 = Throws transport_error"
    by (simp add: write_outcome_def scripted_def)
  have w: "\<forall>j<length ?ps. j \<noteq> 1 \<longrightarrow>
      \<not> is_Throws (write_outcome ?g (collectionHandle best_sellers_form) ?ps j)"
    by (simp add: write_outcome_def scripted_def)
  have r: "\<not> is_Throws (?g (Suc (length ?ps))
              (rendered_at (collectionId best_sellers_form) (clock (session_with ?g))))"
    by (simp add: scripted_def best_sellers_length)
  from C2_one_write_throws [of "session_with ?g" ?g best_sellers_form best_sellers 1
      transport_error "prototype_with ?g" ?g best_sellers_form best_sellers 1 transport_error]
    s p k t w r
  have "snd (action_session (session_with ?g)) =
        GetCollection (collectionId best_sellers_form) 100 #
        rank_writes (collectionHandle best_sellers_form) ?ps @
        [rendered_at (collectionId best_sellers_form) (clock (session_with ?g))]"
    and "fst (action_session (session_with ?g)) =
           ResultJson True
             \<lparr>success = length ?ps - 1, failed = 1,
              errors = [\<lparr>productId = node_id (?ps ! 1),
                         title = node_title (?ps ! 1), error = message transport_error\<rparr>]\<rparr>
             (''Successfully updated '' @ toString (length ?ps - 1) @
              '' products, 1 failed'')"
    and "action_prototype (prototype_with ?g) =
        (Returns (ResultJson True
             \<lparr>success = length ?ps - 1, failed = 1,
              errors = [\<lparr>productId = node_id (?ps ! 1),
                         title = node_title (?ps ! 1), error = message transport_error\<rparr>]\<rparr>
             (''Successfully updated '' @ toString (length ?ps - 1) @
              '' products, 1 failed'')),
         GetCollection (collectionId best_sellers_form) 100 #
         rank_writes (collectionHandle best_sellers_form) ?ps)"
    by blast+
  moreover have "?ps ! 1 = \<lparr>node_id = ''gid://shopify/Product/B'', node_title = ''B''\<rparr>"
    by (simp add: best_sellers_def)
  ultimately show ?thesis
    using t
    by (simp add: prod_eq_iff best_sellers_length toString_small best_sellers_form_def
          clock_session_with transport_error_def)
qed

text \<open>
  The claim as stated promises the counts for every such run. In the session variant the
  stamp is awaited after the loop inside the outer \<^verbatim>\<open>try\<close>: when the write for B
  and the stamp both throw, all calls have been issued and the answer is status 500
  without the counts.
\<close>

theorem C2_stamp_throws_counterexample:
  "session_proceeds (session_with (scripted (Some best_sellers) [2, 4]))
     (scripted (Some best_sellers) [2, 4]) best_sellers_form best_sellers \<and>
   failing (scripted (Some best_sellers) [2, 4]) (collectionHandle best_sellers_form)
     (products best_sellers) = [1] \<and>
   action_session (session_with (scripted (Some best_sellers) [2, 4])) =
     (ErrorJson ''fetch failed'' 500,
      GetCollection ''gid://shopify/Collection/7'' 100 #
      rank_writes ''best-sellers'' (products best_sellers) @
      [rendered_at ''gid://shopify/Collection/7'' ''2024-05-01T12:00:00.000Z''])"
proof -
  let ?g = "scripted (Some best_sellers) [2, 4]"
  have s: "session_proceeds (session_with ?g) ?g best_sellers_form best_sellers"
    by (simp add: session_proceeds_with best_sellers_manual)
  have f: "failing ?g (collectionHandle best_sellers_form) (products best_sellers) = [1]"
    by (simp add: failing_def best_sellers_length upt_3 write_outcome_def scripted_def)
  have e: "action_session (session_with ?g) =
     (ErrorJson ''fetch failed'' 500,
      GetCollection ''gid://shopify/Collection/7'' 100 #
      rank_writes ''best-sellers'' (products best_sellers) @
      [rendered_at ''gid://shopify/Collection/7'' ''2024-05-01T12:00:00.000Z''])"
    by (simp add: action_session_run [OF s] best_sellers_length scripted_def catch_session_def
          message_or_default_def transport_error_def best_sellers_form_def clock_session_with)
  from s f e show ?thesis by blast
qed

text \<open>
  Claim C3, as the code has it. When the write for the product at index \<open>i\<close> throws
  error \<open>e\<close>, whatever \<open>e\<close> is, the loop goes on with index \<open>i + 1\<close> from a state in
  which \<open>failed\<close> is one larger, \<^verbatim>\<open>{ productId, title, error: e.message }\<close> is
  appended to \<open>errors\<close> and \<open>success\<close> is unchanged; when the loop ends the counter is
  still at least one larger, the diagnostic still follows the earlier ones, and a write has
  been issued for every remaining product. When the write returns, whatever the body
  holds, the loop goes on with index \<open>i + 1\<close> from a state in which \<open>success\<close> is one
  larger and nothing else has changed: an error that the platform reports inside a
  returned body is not a failure of the write.
\<close>

theorem C3_thrown_or_returned:
  "(i < length ps \<and> gql (length calls) (rank_write hdl (ps ! i) i) = Throws e \<longrightarrow>
     rank_loop gql hdl ps i (res, calls) =
       rank_loop gql hdl ps (Suc i)
         (res\<lparr>failed := failed res + 1,
              errors := errors res @
                [\<lparr>productId = node_id (ps ! i), title = node_title (ps ! i),
                  error = message e\<rparr>]\<rparr>,
          calls @ [rank_write hdl (ps ! i) i]) \<and>
     failed res + 1 \<le> failed (fst (rank_loop gql hdl ps i (res, calls))) \<and>
     prefix (errors res @
               [\<lparr>productId = node_id (ps ! i), title = node_title (ps ! i),
                 error = message e\<rparr>])
       (errors (fst (rank_loop gql hdl ps i (res, calls)))) \<and>
     snd (rank_loop gql hdl ps i (res, calls)) =
       calls @ map (\<lambda>j. rank_write hdl (ps ! j) j) [i..<length ps]) \<and>
   (i' < length ps' \<and> gql' (length calls') (rank_write hdl' (ps' ! i') i') = Returns d \<longrightarrow>
     rank_loop gql' hdl' ps' i' (res', calls') =
       rank_loop gql' hdl' ps' (Suc i')
         (res'\<lparr>success := success res' + 1\<rparr>, calls' @ [rank_write hdl' (ps' ! i') i']))"
proof (intro conjI impI)
  assume a: "i < length ps \<and> gql (length calls) (rank_write hdl (ps ! i) i) = Throws e"
  let ?res = "res\<lparr>failed := failed res + 1,
              errors := errors res @
                [\<lparr>productId = node_id (ps ! i), title = node_title (ps ! i),
                  error = message e\<rparr>]\<rparr>"
  let ?calls = "calls @ [rank_write hdl (ps ! i) i]"
  from a show step: "rank_loop gql hdl ps i (res, calls) = rank_loop gql hdl ps (Suc i) (?res, ?calls)"
    by (simp add: rank_loop_step entry_of_def)
  from rank_loop_grows [of ?res gql hdl ps "Suc i" ?calls] a
  show "failed res + 1 \<le> failed (fst (rank_loop gql hdl ps i (res, calls)))"
    and "prefix (errors res @
               [\<lparr>productId = node_id (ps ! i), title = node_title (ps ! i),
                 error = message e\<rparr>])
       (errors (fst (rank_loop gql hdl ps i (res, calls))))"
    and "snd (rank_loop gql hdl ps i (res, calls)) =
       calls @ map (\<lambda>j. rank_write hdl (ps ! j) j) [i..<length ps]"
    unfolding step by (simp_all add: upt_conv_Cons)
next
  assume "i' < length ps' \<and> gql' (length calls') (rank_write hdl' (ps' ! i') i') = Returns d"
  then show "rank_loop gql' hdl' ps' i' (res', calls') =
       rank_loop gql' hdl' ps' (Suc i')
         (res'\<lparr>success := success res' + 1\<rparr>, calls' @ [rank_write hdl' (ps' ! i') i'])"
    by (simp add: rank_loop_step)
qed

text \<open>
  Best-sellers in the middle of the loop: A has been written, the write for B throws, and
  the loop ends with C written and B recorded; and the returning write for C adds one to
  \<open>success\<close>.
\<close>

theorem C3_thrown_or_returned_witness:
  "scripted (Some best_sellers) [2] 2
     (rank_write ''best-sellers'' (products best_sellers ! 1) 1) = Throws transport_error \<and>
   rank_loop (scripted (Some best_sellers) [2]) ''best-sellers'' (products best_sellers) 1
     (\<lparr>success = 1, failed = 0, errors = []\<rparr>,
      [GetCollection ''gid://shopify/Collection/7'' 100,
       rank_write ''best-sellers'' (products best_sellers ! 0) 0]) =
     (\<lparr>success = 2, failed = 1,
       errors = [\<lparr>productId = ''gid://shopify/Product/B'', title = ''B'',
                  error = Some ''fetch failed''\<rparr>]\<rparr>,
      [GetCollection ''gid://shopify/Collection/7'' 100,
       rank_write ''best-sellers'' (products best_sellers ! 0) 0,
       rank_write ''best-sellers'' (products best_sellers ! 1) 1,
       rank_write ''best-sellers'' (products best_sellers ! 2) 2]) \<and>
   scripted (Some best_sellers) [2] 3
     (rank_write ''best-sellers'' (products best_sellers ! 2) 2) =
     Returns \<lparr>data_collection = None, userErrors = []\<rparr> \<and>
   rank_loop (scripted (Some best_sellers) [2]) ''best-sellers'' (products best_sellers) 2
     (\<lparr>success = 1, failed = 1, errors = []\<rparr>,
      [GetCollection ''gid://shopify/Collection/7'' 100,
       rank_write ''best-sellers'' (products best_sellers ! 0) 0,
       rank_write ''best-sellers'' (products best_sellers ! 1) 1]) =
     (\<lparr>success = 2, failed = 1, errors = []\<rparr>,
      [GetCollection ''gid://shopify/Collection/7'' 100,
       rank_write ''best-sellers'' (products best_sellers ! 0) 0,
       rank_write ''best-sellers'' (products best_sellers ! 1) 1,
       rank_write ''best-sellers'' (products best_sellers ! 2) 2])"
proof -
  let ?g = "scripted (Some best_sellers) [2]"
  let ?ps = "products best_sellers"
  let ?calls = "[GetCollection ''gid://shopify/Collection/7'' 100,
       rank_write ''best-sellers'' (?ps ! 0) 0]"
  let ?calls2 = "[GetCollection ''gid://shopify/Collection/7'' 100,
       rank_write ''best-sellers'' (?ps ! 0) 0, rank_write ''best-sellers'' (?ps ! 1) 1]"
  let ?res = "\<lparr>success = 1, failed = 0, errors = []\<rparr>"
  let ?res2 = "\<lparr>success = 1, failed = 1, errors = []\<rparr>"
  let ?d = "\<lparr>data_collection = None, userErrors = []\<rparr>"
  have i: "1 < length ?ps" and i2: "2 < length ?ps" by (simp_all add: best_sellers_length)
  have t: "?g (length ?calls) (rank_write ''best-sellers'' (?ps ! 1) 1) = Throws transport_error"
    by (simp add: scripted_def)
  have t2: "?g (length ?calls2) (rank_write ''best-sellers'' (?ps ! 2) 2) = Returns ?d"
    by (simp add: scripted_def rank_write_def)
  note inst = C3_thrown_or_returned [of 1 ?ps ?g ?calls "''best-sellers''" transport_error ?res
      2 ?ps ?g ?calls2 "''best-sellers''" ?d ?res2]
  from inst i t
  have "rank_loop ?g ''best-sellers'' ?ps 1 (?res, ?calls) =
       rank_loop ?g ''best-sellers'' ?ps (Suc 1)
         (?res\<lparr>failed := failed ?res + 1,
              errors := errors ?res @
                [\<lparr>productId = node_id (?ps ! 1), title = node_title (?ps ! 1),
                  error = message transport_error\<rparr>]\<rparr>,
          ?calls @ [rank_write ''best-sellers'' (?ps ! 1) 1])"
    by blast
  also have "\<dots> = (\<lparr>success = 2, failed = 1,
       errors = [\<lparr>productId = ''gid://shopify/Product/B'', title = ''B'',
                  error = Some ''fetch failed''\<rparr>]\<rparr>,
      [GetCollection ''gid://shopify/Collection/7'' 100,
       rank_write ''best-sellers'' (?ps ! 0) 0,
       rank_write ''best-sellers'' (?ps ! 1) 1,
       rank_write ''best-sellers'' (?ps ! 2) 2])"
    by (simp add: rank_loop_step rank_loop_done best_sellers_def scripted_def
          transport_error_def rank_write_def toString_small)
  finally have r: "rank_loop ?g ''best-sellers'' ?ps 1 (?res, ?calls) =
     (\<lparr>success = 2, failed = 1,
       errors = [\<lparr>productId = ''gid://shopify/Product/B'', title = ''B'',
                  error = Some ''fetch failed''\<rparr>]\<rparr>,
      [GetCollection ''gid://shopify/Collection/7'' 100,
       rank_write ''best-sellers'' (?ps ! 0) 0,
       rank_write ''best-sellers'' (?ps ! 1) 1,
       rank_write ''best-sellers'' (?ps ! 2) 2])" .
  from inst i2 t2
  have "rank_loop ?g ''best-sellers'' ?ps 2 (?res2, ?calls2) =
       rank_loop ?g ''best-sellers'' ?ps (Suc 2)
         (?res2\<lparr>success := success ?res2 + 1\<rparr>,
          ?calls2 @ [rank_write ''best-sellers'' (?ps ! 2) 2])"
    by blast
  also have "\<dots> = (\<lparr>success = 2, failed = 1, errors = []\<rparr>,
      [GetCollection ''gid://shopify/Collection/7'' 100,
       rank_write ''best-sellers'' (?ps ! 0) 0,
       rank_write ''best-sellers'' (?ps ! 1) 1,
       rank_write ''best-sellers'' (?ps ! 2) 2])"
    by (simp add: rank_loop_done best_sellers_length)
  finally have r2: "rank_loop ?g ''best-sellers'' ?ps 2 (?res2, ?calls2) =
     (\<lparr>success = 2, failed = 1, errors = []\<rparr>,
      [GetCollection ''gid://shopify/Collection/7'' 100,
       rank_write ''best-sellers'' (?ps ! 0) 0,
       rank_write ''best-sellers'' (?ps ! 1) 1,
       rank_write ''best-sellers'' (?ps ! 2) 2])" .
  have h: "?g 2 (rank_write ''best-sellers'' (?ps ! 1) 1) = Throws transport_error"
    by (simp add: scripted_def)
  have h2: "?g 3 (rank_write ''best-sellers'' (?ps ! 2) 2) = Returns ?d"
    by (simp add: scripted_def rank_write_def)
  from h r h2 r2 show ?thesis by (intro conjI)
qed

text \<open>
  The claim as stated covers every write whose call reports an error, validation errors
  among them. The platform reports a rejected input as \<^verbatim>\<open>userErrors\<close> in a body
  that the call returns: part_003 prints the entries (lines 48-50) and returns the body,
  part_002 does not look at them, and neither reads the HTTP status of the answer. Here
  every write of best-sellers is answered with such a body: nothing is added to \<open>failed\<close>
  or to \<open>errors\<close>, and both variants answer with 3 successes.
\<close>

theorem C3_userErrors_counterexample:
  "list_all
     (\<lambda>j. reports_error
             (write_outcome (rejecting (Some best_sellers)) ''best-sellers''
                (products best_sellers) j)) [0, 1, 2] \<and>
   rank_loop (rejecting (Some best_sellers)) ''best-sellers'' (products best_sellers) 0
     (\<lparr>success = 0, failed = 0, errors = []\<rparr>,
      [GetCollection ''gid://shopify/Collection/7'' 100]) =
     (\<lparr>success = 3, failed = 0, errors = []\<rparr>,
      GetCollection ''gid://shopify/Collection/7'' 100 #
      rank_writes ''best-sellers'' (products best_sellers)) \<and>
   fst (action_session (session_with (rejecting (Some best_sellers)))) =
     ResultJson True \<lparr>success = 3, failed = 0, errors = []\<rparr>
       ''Successfully updated 3 products'' \<and>
   fst (action_prototype (prototype_with (rejecting (Some best_sellers)))) =
     Returns (ResultJson True \<lparr>success = 3, failed = 0, errors = []\<rparr>
       ''Successfully updated 3 products'')"
proof -
  let ?g = "rejecting (Some best_sellers)"
  have e: "list_all (\<lambda>j. reports_error
             (write_outcome ?g ''best-sellers'' (products best_sellers) j)) [0, 1, 2]"
    by (simp add: reports_error_def write_outcome_def rejecting_def rank_write_def)
  have t: "tally ?g ''best-sellers'' (products best_sellers) =
      \<lparr>success = 3, failed = 0, errors = []\<rparr>"
    by (simp add: tally_def failing_def write_outcome_def rejecting_def rank_write_def
          best_sellers_length upt_3)
  have l: "rank_loop ?g ''best-sellers'' (products best_sellers) 0
     (\<lparr>success = 0, failed = 0, errors = []\<rparr>,
      [GetCollection ''gid://shopify/Collection/7'' 100]) =
     (\<lparr>success = 3, failed = 0, errors = []\<rparr>,
      GetCollection ''gid://shopify/Collection/7'' 100 #
      rank_writes ''best-sellers'' (products best_sellers))"
    by (simp add: rank_loop_from_fetch t)
  have f: "fetched ?g best_sellers_form best_sellers"
    by (simp add: fetched_def rejecting_def)
  have s: "session_proceeds (session_with ?g) ?g best_sellers_form best_sellers"
    and p: "prototype_proceeds (prototype_with ?g) ?g best_sellers_form best_sellers"
    using f
    by (simp_all add: session_proceeds_def prototype_proceeds_def session_api_with
          prototype_api_with best_sellers_manual)
  have c: "collectionHandle best_sellers_form = ''best-sellers''"
    by (simp add: best_sellers_form_def)
  have m: "summary \<lparr>success = 3, failed = 0, errors = []\<rparr> = ''Successfully updated 3 products''"
    by (simp add: summary_def toString_small)
  have a: "fst (action_session (session_with ?g)) =
     ResultJson True \<lparr>success = 3, failed = 0, errors = []\<rparr>
       ''Successfully updated 3 products''"
    by (subst action_session_run [OF s])
       (simp add: c t m rejecting_def rendered_at_def)
  have b: "fst (action_prototype (prototype_with ?g)) =
     Returns (ResultJson True \<lparr>success = 3, failed = 0, errors = []\<rparr>
       ''Successfully updated 3 products'')"
    by (subst action_prototype_run [OF p]) (simp add: c t m)
  from e l a b show ?thesis by (intro conjI)
qed

section \<open>Running twice\<close>

text \<open>The product writes an invocation issues once both guards have passed.\<close>

lemma product_updates_append:
  "product_updates (xs @ ys) = product_updates xs @ product_updates ys"
  by (induction xs rule: product_updates.induct) simp_all

lemma product_updates_rank_writes:
  "product_updates (rank_writes hdl ps) =
     map (\<lambda>i. (node_id (ps ! i),
                \<lparr>mf_namespace = ''custom'', mf_key = hdl @ ''_rank'',
                 mf_type = ''number_integer'', mf_value = toString (i + 1)\<rparr>))
       [0..<length ps]"
proof -
  have "product_updates (map (\<lambda>j. rank_write hdl (ps ! j) j) js) =
     map (\<lambda>i. (node_id (ps ! i),
                \<lparr>mf_namespace = ''custom'', mf_key = hdl @ ''_rank'',
                 mf_type = ''number_integer'', mf_value = toString (i + 1)\<rparr>)) js" for js
    by (induction js) (simp_all add: rank_write_def)
  then show ?thesis by (simp add: rank_writes_def)
qed

lemma product_updates_session:
  assumes "session_proceeds request gql fd c"
  shows "product_updates (snd (action_session request)) =
     map (\<lambda>i. (node_id (products c ! i),
                \<lparr>mf_namespace = ''custom'', mf_key = collectionHandle fd @ ''_rank'',
                 mf_type = ''number_integer'', mf_value = toString (i + 1)\<rparr>))
       [0..<length (products c)]"
  by (simp add: action_session_run [OF assms] product_updates_append
        product_updates_rank_writes rendered_at_def)

lemma product_updates_prototype:
  assumes "prototype_proceeds env gql fd c"
  shows "product_updates (snd (action_prototype env)) =
     map (\<lambda>i. (node_id (products c ! i),
                \<lparr>mf_namespace = ''custom'', mf_key = collectionHandle fd @ ''_rank'',
                 mf_type = ''number_integer'', mf_value = toString (i + 1)\<rparr>))
       [0..<length (products c)]"
  by (simp add: action_prototype_run [OF assms] product_updates_append
        product_updates_rank_writes)

text \<open>
  Claim C6. Take two invocations for the same form (collection identifier and handle),
  each with its own API handle, so that the answers of the second run may differ from
  those of the first in any way, also in which writes throw. When both pass the guards and
  the fetched product lists are the same, the product writes of the two runs are the same
  list: for each product the same metafield key and the same decimal text of its 1-based
  position. The action keeps no state between invocations, so the second run is simply
  another invocation.
\<close>

theorem C6_same_list_same_ranks:
  "(session_proceeds run1 gql1 fd c1 \<and> session_proceeds run2 gql2 fd c2 \<and>
    products c1 = products c2 \<longrightarrow>
      product_updates (snd (action_session run1)) =
        map (\<lambda>i. (node_id (products c1 ! i),
                   \<lparr>mf_namespace = ''custom'', mf_key = collectionHandle fd @ ''_rank'',
                    mf_type = ''number_integer'', mf_value = toString (i + 1)\<rparr>))
          [0..<length (products c1)] \<and>
      product_updates (snd (action_session run2)) =
        product_updates (snd (action_session run1))) \<and>
   (prototype_proceeds env1 gql1' fd' c1' \<and> prototype_proceeds env2 gql2' fd' c2' \<and>
    products c1' = products c2' \<longrightarrow>
      product_updates (snd (action_prototype env1)) =
        map (\<lambda>i. (node_id (products c1' ! i),
                   \<lparr>mf_namespace = ''custom'', mf_key = collectionHandle fd' @ ''_rank'',
                    mf_type = ''number_integer'', mf_value = toString (i + 1)\<rparr>))
          [0..<length (products c1')] \<and>
      product_updates (snd (action_prototype env2)) =
        product_updates (snd (action_prototype env1)))"
  by (auto simp: product_updates_session product_updates_prototype)

text \<open>
  Two runs on best-sellers; in the second the write for B throws, and the writes issued
  are the same three.
\<close>

theorem C6_same_list_same_ranks_witness:
  "products best_sellers = products (best_sellers\<lparr>handle := ''top''\<rparr>) \<and>
   product_updates (snd (action_session (session_with (scripted (Some best_sellers) [])))) =
     [(''gid://shopify/Product/A'',
       \<lparr>mf_namespace = ''custom'', mf_key = ''best-sellers_rank'',
        mf_type = ''number_integer'', mf_value = ''1''\<rparr>),
      (''gid://shopify/Product/B'',
       \<lparr>mf_namespace = ''custom'', mf_key = ''best-sellers_rank'',
        mf_type = ''number_integer'', mf_value = ''2''\<rparr>),
      (''gid://shopify/Product/C'',
       \<lparr>mf_namespace = ''custom'', mf_key = ''best-sellers_rank'',
        mf_type = ''number_integer'', mf_value = ''3''\<rparr>)] \<and>
   product_updates
     (snd (action_session
        (session_with (scripted (Some (best_sellers\<lparr>handle := ''top''\<rparr>)) [2])))) =
   product_updates (snd (action_session (session_with (scripted (Some best_sellers) [])))) \<and>
   product_updates
     (snd (action_prototype
        (prototype_with (scripted (Some (best_sellers\<lparr>handle := ''top''\<rparr>)) [2])))) =
   product_updates (snd (action_prototype (prototype_with (scripted (Some best_sellers) []))))"
proof -
  let ?c2 = "best_sellers\<lparr>handle := ''top''\<rparr>"
  let ?g1 = "scripted (Some best_sellers) []"
  let ?g2 = "scripted (Some ?c2) [2]"
  have s1: "session_proceeds (session_with ?g1) ?g1 best_sellers_form best_sellers"
    and s2: "session_proceeds (session_with ?g2) ?g2 best_sellers_form ?c2"
    and p1: "prototype_proceeds (prototype_with ?g1) ?g1 best_sellers_form best_sellers"
    and p2: "prototype_proceeds (prototype_with ?g2) ?g2 best_sellers_form ?c2"
    by (simp_all add: session_proceeds_with prototype_proceeds_with best_sellers_manual)
  have e: "products best_sellers = products ?c2" by simp
  from C6_same_list_same_ranks [of "session_with ?g1" ?g1 best_sellers_form best_sellers
      "session_with ?g2" ?g2 ?c2 "prototype_with ?g1" ?g1 best_sellers_form best_sellers
      "prototype_with ?g2" ?g2 ?c2] s1 s2 p1 p2 e
  have a: "product_updates (snd (action_session (session_with ?g1))) =
        map (\<lambda>i. (node_id (products best_sellers ! i),
                   \<lparr>mf_namespace = ''custom'',
                    mf_key = collectionHandle best_sellers_form @ ''_rank'',
                    mf_type = ''number_integer'', mf_value = toString (i + 1)\<rparr>))
          [0..<length (products best_sellers)]"
    and b: "product_updates (snd (action_session (session_with ?g2))) =
        product_updates (snd (action_session (session_with ?g1)))"
    and c: "product_updates (snd (action_prototype (prototype_with ?g2))) =
        product_updates (snd (action_prototype (prototype_with ?g1)))"
    by blast+
  have "product_updates (snd (action_session (session_with ?g1))) =
     [(''gid://shopify/Product/A'',
       \<lparr>mf_namespace = ''custom'', mf_key = ''best-sellers_rank'',
        mf_type = ''number_integer'', mf_value = ''1''\<rparr>),
      (''gid://shopify/Product/B'',
       \<lparr>mf_namespace = ''custom'', mf_key = ''best-sellers_rank'',
        mf_type = ''number_integer'', mf_value = ''2''\<rparr>),
      (''gid://shopify/Product/C'',
       \<lparr>mf_namespace = ''custom'', mf_key = ''best-sellers_rank'',
        mf_type = ''number_integer'', mf_value = ''3''\<rparr>)]"
    unfolding a by (simp add: best_sellers_def upt_3 toString_small best_sellers_form_def)
  with e b c show ?thesis by (intro conjI)
qed

section \<open>After the loop\<close>

text \<open>
  Claim C8. In the session variant, once both guards have passed, the calls of the
  invocation are the fetch, the product writes, and then exactly one
  \<^verbatim>\<open>collectionUpdate\<close> for the posted collection identifier that sets the metafield
  \<^verbatim>\<open>custom.rendered_at\<close> (a \<^verbatim>\<open>single_line_text_field\<close>) to the time read after
  the loop. The stamp is issued whatever the writes did, and the action answers with the
  counts exactly when the stamp call has returned, so the stamp comes before that answer.
\<close>

theorem C8_collection_stamp:
  "session_proceeds request gql fd c \<longrightarrow>
     snd (action_session request) =
       GetCollection (collectionId fd) 100 # rank_writes (collectionHandle fd) (products c) @
       [CollectionUpdate (collectionId fd)
          \<lparr>mf_namespace = ''custom'', mf_key = ''rendered_at'',
           mf_type = ''single_line_text_field'', mf_value = clock request\<rparr>] \<and>
     ((\<exists>res msg. fst (action_session request) = ResultJson True res msg) \<longleftrightarrow>
      \<not> is_Throws (gql (Suc (length (products c)))
           (CollectionUpdate (collectionId fd)
              \<lparr>mf_namespace = ''custom'', mf_key = ''rendered_at'',
               mf_type = ''single_line_text_field'', mf_value = clock request\<rparr>)))"
proof
  assume p: "session_proceeds request gql fd c"
  show "snd (action_session request) =
       GetCollection (collectionId fd) 100 # rank_writes (collectionHandle fd) (products c) @
       [CollectionUpdate (collectionId fd)
          \<lparr>mf_namespace = ''custom'', mf_key = ''rendered_at'',
           mf_type = ''single_line_text_field'', mf_value = clock request\<rparr>] \<and>
     ((\<exists>res msg. fst (action_session request) = ResultJson True res msg) \<longleftrightarrow>
      \<not> is_Throws (gql (Suc (length (products c)))
           (CollectionUpdate (collectionId fd)
              \<lparr>mf_namespace = ''custom'', mf_key = ''rendered_at'',
               mf_type = ''single_line_text_field'', mf_value = clock request\<rparr>)))"
    by (auto simp: action_session_run [OF p] rendered_at_def catch_session_def
          split: outcome.splits)
qed

theorem C8_collection_stamp_witness:
  "session_proceeds (session_with (scripted (Some best_sellers) []))
     (scripted (Some best_sellers) []) best_sellers_form best_sellers \<and>
   snd (action_session (session_with (scripted (Some best_sellers) []))) =
     GetCollection ''gid://shopify/Collection/7'' 100 #
     rank_writes ''best-sellers'' (products best_sellers) @
     [CollectionUpdate ''gid://shopify/Collection/7''
        \<lparr>mf_namespace = ''custom'', mf_key = ''rendered_at'',
         mf_type = ''single_line_text_field'', mf_value = ''2024-05-01T12:00:00.000Z''\<rparr>] \<and>
   (\<exists>res msg. fst (action_session (session_with (scripted (Some best_sellers) []))) =
      ResultJson True res msg)"
proof -
  let ?g = "scripted (Some best_sellers) []"
  have s: "session_proceeds (session_with ?g) ?g best_sellers_form best_sellers"
    by (simp add: session_proceeds_with best_sellers_manual)
  have r: "\<not> is_Throws (?g (Suc (length (products best_sellers)))
           (CollectionUpdate (collectionId best_sellers_form)
              \<lparr>mf_namespace = ''custom'', mf_key = ''rendered_at'',
               mf_type = ''single_line_text_field'', mf_value = clock (session_with ?g)\<rparr>))"
    by (simp add: scripted_def)
  from C8_collection_stamp [of "session_with ?g" ?g best_sellers_form best_sellers] s r
  have "snd (action_session (session_with ?g)) =
       GetCollection (collectionId best_sellers_form) 100 #
       rank_writes (collectionHandle best_sellers_form) (products best_sellers) @
       [CollectionUpdate (collectionId best_sellers_form)
          \<lparr>mf_namespace = ''custom'', mf_key = ''rendered_at'',
           mf_type = ''single_line_text_field'', mf_value = clock (session_with ?g)\<rparr>]"
    and e: "\<exists>res msg. fst (action_session (session_with ?g)) = ResultJson True res msg"
    by blast+
  then have "snd (action_session (session_with ?g)) =
     GetCollection ''gid://shopify/Collection/7'' 100 #
     rank_writes ''best-sellers'' (products best_sellers) @
     [CollectionUpdate ''gid://shopify/Collection/7''
        \<lparr>mf_namespace = ''custom'', mf_key = ''rendered_at'',
         mf_type = ''single_line_text_field'', mf_value = ''2024-05-01T12:00:00.000Z''\<rparr>]"
    by (simp add: best_sellers_form_def clock_session_with)
  with s e show ?thesis by (intro conjI)
qed

text \<open>
  Claim C9, as the code has it. Once both guards have passed, no outcome of a product write
  ends the invocation: the answer depends on the writes only through the counts. The
  prototype always answers with the counts. The session variant answers with the counts
  when its closing stamp call returns; when that call throws, the outer \<^verbatim>\<open>catch\<close>
  answers instead, with status 401 and "Session expired. Please refresh the page." for an
  error whose \<^verbatim>\<open>status\<close> is 401, and otherwise with status 500 and the error's
  message (the default text when the message is missing or empty). A throw of the fetch
  is answered by the same \<^verbatim>\<open>catch\<close>, after the fetch as the only call.
\<close>

theorem C9_after_the_guards:
  "(session_proceeds request gql fd c \<longrightarrow>
      fst (action_session request) =
        (case gql (Suc (length (products c))) (rendered_at (collectionId fd) (clock request)) of
           Returns d \<Rightarrow>
             ResultJson True (tally gql (collectionHandle fd) (products c))
               (summary (tally gql (collectionHandle fd) (products c)))
         | Throws e \<Rightarrow>
             if status e = Some 401
             then ErrorJson ''Session expired. Please refresh the page.'' 401
             else ErrorJson (message_or_default e) 500)) \<and>
   (prototype_proceeds env pgql pfd pc \<longrightarrow>
      fst (action_prototype env) =
        Returns (ResultJson True (tally pgql (collectionHandle pfd) (products pc))
                   (summary (tally pgql (collectionHandle pfd) (products pc))))) \<and>
   (session_api request2 = Some (gql2, fd2) \<and>
    gql2 0 (GetCollection (collectionId fd2) 100) = Throws e2 \<longrightarrow>
      action_session request2 =
        (if status e2 = Some 401
         then ErrorJson ''Session expired. Please refresh the page.'' 401
         else ErrorJson (message_or_default e2) 500,
         [GetCollection (collectionId fd2) 100])) \<and>
   (prototype_api env2 = Some (pgql2, pfd2) \<and>
    pgql2 0 (GetCollection (collectionId pfd2) 100) = Throws pe2 \<longrightarrow>
      action_prototype env2 =
        (Returns (ErrorJson (message_or_default pe2) 500),
         [GetCollection (collectionId pfd2) 100]))"
proof (intro conjI impI)
  assume p: "session_proceeds request gql fd c"
  show "fst (action_session request) =
        (case gql (Suc (length (products c))) (rendered_at (collectionId fd) (clock request)) of
           Returns d \<Rightarrow>
             ResultJson True (tally gql (collectionHandle fd) (products c))
               (summary (tally gql (collectionHandle fd) (products c)))
         | Throws e \<Rightarrow>
             if status e = Some 401
             then ErrorJson ''Session expired. Please refresh the page.'' 401
             else ErrorJson (message_or_default e) 500)"
    by (simp add: action_session_run [OF p] catch_session_def split: outcome.splits)
next
  assume p: "prototype_proceeds env pgql pfd pc"
  show "fst (action_prototype env) =
        Returns (ResultJson True (tally pgql (collectionHandle pfd) (products pc))
                   (summary (tally pgql (collectionHandle pfd) (products pc))))"
    by (simp add: action_prototype_run [OF p])
next
  assume "session_api request2 = Some (gql2, fd2) \<and>
    gql2 0 (GetCollection (collectionId fd2) 100) = Throws e2"
  then show "action_session request2 =
        (if status e2 = Some 401
         then ErrorJson ''Session expired. Please refresh the page.'' 401
         else ErrorJson (message_or_default e2) 500,
         [GetCollection (collectionId fd2) 100])"
    by (auto simp: action_session_def session_api_def catch_session_def Let_def
          split: outcome.splits option.splits)
next
  assume "prototype_api env2 = Some (pgql2, pfd2) \<and>
    pgql2 0 (GetCollection (collectionId pfd2) 100) = Throws pe2"
  then show "action_prototype env2 =
        (Returns (ErrorJson (message_or_default pe2) 500),
         [GetCollection (collectionId pfd2) 100])"
    by (auto simp: action_prototype_def prototype_api_def catch_prototype_def Let_def
          split: outcome.splits option.splits if_splits)
qed

theorem C9_after_the_guards_witness:
  "fst (action_session (session_with (scripted (Some best_sellers) [2]))) =
     ResultJson True
       \<lparr>success = 2, failed = 1,
        errors = [\<lparr>productId = ''gid://shopify/Product/B'', title = ''B'',
                   error = Some ''fetch failed''\<rparr>]\<rparr>
       ''Successfully updated 2 products, 1 failed'' \<and>
   fst (action_prototype (prototype_with (scripted (Some best_sellers) [2]))) =
     Returns (ResultJson True
       \<lparr>success = 2, failed = 1,
        errors = [\<lparr>productId = ''gid://shopify/Product/B'', title = ''B'',
                   error = Some ''fetch failed''\<rparr>]\<rparr>
       ''Successfully updated 2 products, 1 failed'') \<and>
   action_session (session_with (scripted (Some best_sellers) [0])) =
     (ErrorJson ''fetch failed'' 500, [GetCollection ''gid://shopify/Collection/7'' 100]) \<and>
   action_prototype (prototype_with (scripted (Some best_sellers) [0])) =
     (Returns (ErrorJson ''fetch failed'' 500),
      [GetCollection ''gid://shopify/Collection/7'' 100])"
proof -
  let ?g = "scripted (Some best_sellers) [2]"
  let ?h = "scripted (Some best_sellers) [0]"
  have s: "session_proceeds (session_with ?g) ?g best_sellers_form best_sellers"
    and p: "prototype_proceeds (prototype_with ?g) ?g best_sellers_form best_sellers"
    by (simp_all add: session_proceeds_with prototype_proceeds_with best_sellers_manual)
  have t: "?h 0 (GetCollection (collectionId best_sellers_form) 100) = Throws transport_error"
    by (simp add: scripted_def)
  have r: "?g (Suc (length (products best_sellers))) (rendered_at cid now) =
           Returns \<lparr>data_collection = None, userErrors = []\<rparr>" for cid now
    by (simp add: scripted_def best_sellers_length rendered_at_def)
  from C9_after_the_guards [of "session_with ?g" ?g best_sellers_form best_sellers
      "prototype_with ?g" ?g best_sellers_form best_sellers
      "session_with ?h" ?h best_sellers_form transport_error
      "prototype_with ?h" ?h best_sellers_form transport_error] s p t
  have a: "fst (action_session (session_with ?g)) =
        (case ?g (Suc (length (products best_sellers)))
                (rendered_at (collectionId best_sellers_form) (clock (session_with ?g))) of
           Returns d \<Rightarrow>
             ResultJson True (tally ?g (collectionHandle best_sellers_form) (products best_sellers))
               (summary (tally ?g (collectionHandle best_sellers_form) (products best_sellers)))
         | Throws e \<Rightarrow>
             if status e = Some 401
             then ErrorJson ''Session expired. Please refresh the page.'' 401
             else ErrorJson (message_or_default e) 500)"
    and b: "fst (action_prototype (prototype_with ?g)) =
        Returns (ResultJson True (tally ?g (collectionHandle best_sellers_form) (products best_sellers))
                   (summary (tally ?g (collectionHandle best_sellers_form) (products best_sellers))))"
    and c: "action_session (session_with ?h) =
        (if status transport_error = Some 401
         then ErrorJson ''Session expired. Please refresh the page.'' 401
         else ErrorJson (message_or_default transport_error) 500,
         [GetCollection (collectionId best_sellers_form) 100])"
    and d: "action_prototype (prototype_with ?h) =
        (Returns (ErrorJson (message_or_default transport_error) 500),
         [GetCollection (collectionId best_sellers_form) 100])"
    by (simp_all add: session_api_with prototype_api_with)
  have f: "collectionHandle best_sellers_form = ''best-sellers''"
    "collectionId best_sellers_form = ''gid://shopify/Collection/7''"
    by (simp_all add: best_sellers_form_def)
  have m: "summary \<lparr>success = 2, failed = 1,
        errors = [\<lparr>productId = ''gid://shopify/Product/B'', title = ''B'',
                   error = Some ''fetch failed''\<rparr>]\<rparr> =
       ''Successfully updated 2 products, 1 failed''"
    by (simp add: summary_def toString_small)
  have u: "message_or_default transport_error = ''fetch failed''"
    "status transport_error \<noteq> Some 401"
    by (simp_all add: message_or_default_def transport_error_def)
  show ?thesis
    unfolding a b c d r f tally_best_sellers_B m using u by simp
qed

text \<open>
  The claim as stated lets nothing but the fetch fail the invocation once the guards have
  passed. Here the guards pass, the three writes are issued and return, the stamp call
  throws an error with status 401, and the action answers 401 without the counts.
\<close>

theorem C9_stamp_throws_counterexample:
  "session_proceeds
     (session_with (scripted_error \<lparr>message = Some ''Unauthorized'', status = Some 401\<rparr>
        (Some best_sellers) [4]))
     (scripted_error \<lparr>message = Some ''Unauthorized'', status = Some 401\<rparr>
        (Some best_sellers) [4])
     best_sellers_form best_sellers \<and>
   action_session
     (session_with (scripted_error \<lparr>message = Some ''Unauthorized'', status = Some 401\<rparr>
        (Some best_sellers) [4])) =
     (ErrorJson ''Session expired. Please refresh the page.'' 401,
      GetCollection ''gid://shopify/Collection/7'' 100 #
      rank_writes ''best-sellers'' (products best_sellers) @
      [rendered_at ''gid://shopify/Collection/7'' ''2024-05-01T12:00:00.000Z''])"
proof -
  let ?g = "scripted_error \<lparr>message = Some ''Unauthorized'', status = Some 401\<rparr>
        (Some best_sellers) [4]"
  have s: "session_proceeds (session_with ?g) ?g best_sellers_form best_sellers"
    by (simp add: session_proceeds_with_error best_sellers_manual)
  have e: "action_session (session_with ?g) =
     (ErrorJson ''Session expired. Please refresh the page.'' 401,
      GetCollection ''gid://shopify/Collection/7'' 100 #
      rank_writes ''best-sellers'' (products best_sellers) @
      [rendered_at ''gid://shopify/Collection/7'' ''2024-05-01T12:00:00.000Z''])"
    by (simp add: action_session_run [OF s] best_sellers_length scripted_error_def
          catch_session_def best_sellers_form_def clock_session_with)
  from s e show ?thesis by (intro conjI)
qed

text \<open>
  Claim C10, as the code has it. Whenever both guards pass and the action answers with the
  counts (always in the prototype; in the session variant when the closing stamp call
  returns), the answer is \<^verbatim>\<open>{ success: true, results, message }\<close> whatever the
  writes did: \<open>success + failed\<close> is the number of products fetched, \<open>errors\<close> has
  \<open>failed\<close> entries, and the message is "Successfully updated \<open>success\<close> products",
  followed by ", \<open>failed\<close> failed" exactly when \<open>failed\<close> is positive.
\<close>

theorem C10_success_flag:
  "(session_proceeds request gql fd c \<and>
    \<not> is_Throws (gql (Suc (length (products c)))
         (rendered_at (collectionId fd) (clock request))) \<longrightarrow>
      (\<exists>res. fst (action_session request) =
           ResultJson True res
             (''Successfully updated '' @ toString (success res) @ '' products'' @
              (if 0 < failed res then '', '' @ toString (failed res) @ '' failed'' else [])) \<and>
         success res + failed res = length (products c) \<and>
         length (errors res) = failed res)) \<and>
   (prototype_proceeds env pgql pfd pc \<longrightarrow>
      (\<exists>res. fst (action_prototype env) =
           Returns (ResultJson True res
             (''Successfully updated '' @ toString (success res) @ '' products'' @
              (if 0 < failed res then '', '' @ toString (failed res) @ '' failed'' else []))) \<and>
         success res + failed res = length (products pc) \<and>
         length (errors res) = failed res))"
proof (intro conjI impI)
  assume a: "session_proceeds request gql fd c \<and>
    \<not> is_Throws (gql (Suc (length (products c)))
         (rendered_at (collectionId fd) (clock request)))"
  then have p: "session_proceeds request gql fd c" by simp
  let ?res = "tally gql (collectionHandle fd) (products c)"
  from a have "fst (action_session request) = ResultJson True ?res (summary ?res)"
    by (auto simp: action_session_run [OF p] split: outcome.splits)
  then have "fst (action_session request) =
           ResultJson True ?res
             (''Successfully updated '' @ toString (success ?res) @ '' products'' @
              (if 0 < failed ?res then '', '' @ toString (failed ?res) @ '' failed'' else [])) \<and>
         success ?res + failed ?res = length (products c) \<and>
         length (errors ?res) = failed ?res"
    by (simp add: summary_def tally_counts)
  then show "\<exists>res. fst (action_session request) =
           ResultJson True res
             (''Successfully updated '' @ toString (success res) @ '' products'' @
              (if 0 < failed res then '', '' @ toString (failed res) @ '' failed'' else [])) \<and>
         success res + failed res = length (products c) \<and>
         length (errors res) = failed res" ..
next
  assume p: "prototype_proceeds env pgql pfd pc"
  let ?res = "tally pgql (collectionHandle pfd) (products pc)"
  have "fst (action_prototype env) =
           Returns (ResultJson True ?res
             (''Successfully updated '' @ toString (success ?res) @ '' products'' @
              (if 0 < failed ?res then '', '' @ toString (failed ?res) @ '' failed'' else []))) \<and>
         success ?res + failed ?res = length (products pc) \<and>
         length (errors ?res) = failed ?res"
    by (simp add: action_prototype_run [OF p] summary_def tally_counts)
  then show "\<exists>res. fst (action_prototype env) =
           Returns (ResultJson True res
             (''Successfully updated '' @ toString (success res) @ '' products'' @
              (if 0 < failed res then '', '' @ toString (failed res) @ '' failed'' else []))) \<and>
         success res + failed res = length (products pc) \<and>
         length (errors res) = failed res" ..
qed

text \<open>Every write of best-sellers throws: the flag is still true, with 0 and 3.\<close>

theorem C10_success_flag_witness:
  "fst (action_session (session_with (scripted (Some best_sellers) [1, 2, 3]))) =
     ResultJson True
       \<lparr>success = 0, failed = 3,
        errors = [\<lparr>productId = ''gid://shopify/Product/A'', title = ''A'',
                   error = Some ''fetch failed''\<rparr>,
                  \<lparr>productId = ''gid://shopify/Product/B'', title = ''B'',
                   error = Some ''fetch failed''\<rparr>,
                  \<lparr>productId = ''gid://shopify/Product/C'', title = ''C'',
                   error = Some ''fetch failed''\<rparr>]\<rparr>
       ''Successfully updated 0 products, 3 failed'' \<and>
   (\<exists>res. fst (action_session (session_with (scripted (Some best_sellers) [1, 2, 3]))) =
           ResultJson True res
             (''Successfully updated '' @ toString (success res) @ '' products'' @
              (if 0 < failed res then '', '' @ toString (failed res) @ '' failed'' else [])) \<and>
         success res + failed res = 3 \<and> length (errors res) = failed res) \<and>
   (\<exists>res. fst (action_prototype (prototype_with (scripted (Some best_sellers) [1, 2, 3]))) =
           Returns (ResultJson True res
             (''Successfully updated '' @ toString (success res) @ '' products'' @
              (if 0 < failed res then '', '' @ toString (failed res) @ '' failed'' else []))) \<and>
         success res + failed res = 3 \<and> length (errors res) = failed res)"
proof -
  let ?g = "scripted (Some best_sellers) [1, 2, 3]"
  have s: "session_proceeds (session_with ?g) ?g best_sellers_form best_sellers"
    and p: "prototype_proceeds (prototype_with ?g) ?g best_sellers_form best_sellers"
    by (simp_all add: session_proceeds_with prototype_proceeds_with best_sellers_manual)
  have r: "\<not> is_Throws (?g (Suc (length (products best_sellers)))
              (rendered_at (collectionId best_sellers_form) (clock (session_with ?g))))"
    by (simp add: scripted_def best_sellers_length)
  have f: "collectionHandle best_sellers_form = ''best-sellers''"
    by (simp add: best_sellers_form_def)
  from C10_success_flag [of "session_with ?g" ?g best_sellers_form best_sellers
      "prototype_with ?g" ?g best_sellers_form best_sellers] s p r
  have a: "\<exists>res. fst (action_session (session_with ?g)) =
           ResultJson True res
             (''Successfully updated '' @ toString (success res) @ '' products'' @
              (if 0 < failed res then '', '' @ toString (failed res) @ '' failed'' else [])) \<and>
         success res + failed res = 3 \<and> length (errors res) = failed res"
    and b: "\<exists>res. fst (action_prototype (prototype_with ?g)) =
           Returns (ResultJson True res
             (''Successfully updated '' @ toString (success res) @ '' products'' @
              (if 0 < failed res then '', '' @ toString (failed res) @ '' failed'' else []))) \<and>
         success res + failed res = 3 \<and> length (errors res) = failed res"
    unfolding best_sellers_length by blast+
  have "fst (action_session (session_with ?g)) =
     ResultJson True
       \<lparr>success = 0, failed = 3,
        errors = [\<lparr>productId = ''gid://shopify/Product/A'', title = ''A'',
                   error = Some ''fetch failed''\<rparr>,
                  \<lparr>productId = ''gid://shopify/Product/B'', title = ''B'',
                   error = Some ''fetch failed''\<rparr>,
                  \<lparr>productId = ''gid://shopify/Product/C'', title = ''C'',
                   error = Some ''fetch failed''\<rparr>]\<rparr>
       ''Successfully updated 0 products, 3 failed''"
    using r
    by (subst action_session_run [OF s])
       (auto simp: f tally_best_sellers_all_fail summary_def toString_small
          split: outcome.splits)
  with a b show ?thesis by (intro conjI)
qed

text \<open>
  The claim as stated promises the flag whenever both guards pass. When the stamp call
  of the session variant throws as well, the answer is an error object with status 500:
  it has no success flag, no counts and no summary.
\<close>

theorem C10_stamp_throws_counterexample:
  "session_proceeds (session_with (scripted (Some best_sellers) [1, 2, 3, 4]))
     (scripted (Some best_sellers) [1, 2, 3, 4]) best_sellers_form best_sellers \<and>
   tally (scripted (Some best_sellers) [1, 2, 3, 4]) ''best-sellers'' (products best_sellers) =
     \<lparr>success = 0, failed = 3,
      errors = [\<lparr>productId = ''gid://shopify/Product/A'', title = ''A'',
                 error = Some ''fetch failed''\<rparr>,
                \<lparr>productId = ''gid://shopify/Product/B'', title = ''B'',
                 error = Some ''fetch failed''\<rparr>,
                \<lparr>productId = ''gid://shopify/Product/C'', title = ''C'',
                 error = Some ''fetch failed''\<rparr>]\<rparr> \<and>
   fst (action_session (session_with (scripted (Some best_sellers) [1, 2, 3, 4]))) =
     ErrorJson ''fetch failed'' 500"
proof -
  let ?g = "scripted (Some best_sellers) [1, 2, 3, 4]"
  have s: "session_proceeds (session_with ?g) ?g best_sellers_form best_sellers"
    by (simp add: session_proceeds_with best_sellers_manual)
  have e: "fst (action_session (session_with ?g)) = ErrorJson ''fetch failed'' 500"
    by (subst action_session_run [OF s])
       (simp add: best_sellers_length scripted_def catch_session_def
          message_or_default_def transport_error_def)
  have t: "tally ?g ''best-sellers'' (products best_sellers) =
     \<lparr>success = 0, failed = 3,
      errors = [\<lparr>productId = ''gid://shopify/Product/A'', title = ''A'',
                 error = Some ''fetch failed''\<rparr>,
                \<lparr>productId = ''gid://shopify/Product/B'', title = ''B'',
                 error = Some ''fetch failed''\<rparr>,
                \<lparr>productId = ''gid://shopify/Product/C'', title = ''C'',
                 error = Some ''fetch failed''\<rparr>]\<rparr>"
    by (rule tally_best_sellers_all_fail) simp_all
  from s t e show ?thesis by (intro conjI)
qed

section \<open>Collections larger than a page\<close>

lemma map_nth_take:
  "map (\<lambda>i. f (xs ! i)) [0..<min n (length xs)] = map f (take n xs)"
  by (rule nth_equalityI) (simp_all add: min.commute)

lemma platform_fetch:
  assumes "gql 0 (GetCollection (collectionId fd) 100) =
      platform_collection shop (collectionId fd) 100"
    and "shop (collectionId fd) = Some c"
  shows "fetched gql fd (c\<lparr>products := take 100 (products c)\<rparr>)"
  using assms by (simp add: fetched_def platform_collection_def)

lemma first_page_writes:
  "map (\<lambda>i. (node_id (take 100 ps ! i),
              \<lparr>mf_namespace = ''custom'', mf_key = hdl @ ''_rank'',
               mf_type = ''number_integer'', mf_value = toString (i + 1)\<rparr>))
     [0..<length (take 100 ps)] =
   map (\<lambda>i. (node_id (ps ! i),
              \<lparr>mf_namespace = ''custom'', mf_key = hdl @ ''_rank'',
               mf_type = ''number_integer'', mf_value = toString (i + 1)\<rparr>))
     [0..<min 100 (length ps)]"
  by (rule nth_equalityI) (simp_all add: min.commute)

lemma beyond_first_page:
  assumes "100 \<le> i" and "i < length ps" and "distinct (map node_id ps)"
  shows "node_id (ps ! i) \<notin> set (map node_id (take 100 ps))"
proof
  assume "node_id (ps ! i) \<in> set (map node_id (take 100 ps))"
  then obtain j where j: "j < length (take 100 ps)" "node_id (take 100 ps ! j) = node_id (ps ! i)"
    by (auto simp: in_set_conv_nth)
  then have "j < 100" "j < length ps" "map node_id ps ! j = map node_id ps ! i"
    using assms(2) by simp_all
  with assms have "j = i"
    by (simp add: nth_eq_iff_index_eq del: nth_map)
  with \<open>j < 100\<close> assms(1) show False by simp
qed

text \<open>
  Claim C7. The fetch is the call \<open>GetCollection id 100\<close>: the query text asks for
  \<^verbatim>\<open>products(first: 100, sortKey: MANUAL)\<close> and the action never asks for a further
  page. When the platform answers that query for a manually sorted collection \<open>c\<close> as
  \<open>platform_collection\<close> describes, the products written are exactly the first 100 of
  \<open>c\<close> in manual order (all of them when there are fewer), the product at index \<open>i\<close>
  getting \<open>i + 1\<close>; a member at index 100 or beyond is not written at all (members of a
  collection have distinct identifiers). This holds for both variants.
\<close>

theorem C7_first_page_only:
  "(session_api request = Some (gql, fd) \<and>
    gql 0 (GetCollection (collectionId fd) 100) =
      platform_collection shop (collectionId fd) 100 \<and>
    shop (collectionId fd) = Some c \<and> sortOrder c = ''MANUAL'' \<longrightarrow>
      snd (action_session request) =
        GetCollection (collectionId fd) 100 #
        rank_writes (collectionHandle fd) (take 100 (products c)) @
        [rendered_at (collectionId fd) (clock request)] \<and>
      product_updates (snd (action_session request)) =
        map (\<lambda>i. (node_id (products c ! i),
                   \<lparr>mf_namespace = ''custom'', mf_key = collectionHandle fd @ ''_rank'',
                    mf_type = ''number_integer'', mf_value = toString (i + 1)\<rparr>))
          [0..<min 100 (length (products c))] \<and>
      map fst (product_updates (snd (action_session request))) =
        map node_id (take 100 (products c)) \<and>
      (\<forall>i. 100 \<le> i \<and> i < length (products c) \<and> distinct (map node_id (products c)) \<longrightarrow>
         node_id (products c ! i) \<notin>
           set (map fst (product_updates (snd (action_session request)))))) \<and>
   (prototype_api env = Some (pgql, pfd) \<and>
    pgql 0 (GetCollection (collectionId pfd) 100) =
      platform_collection pshop (collectionId pfd) 100 \<and>
    pshop (collectionId pfd) = Some pc \<and> sortOrder pc = ''MANUAL'' \<longrightarrow>
      snd (action_prototype env) =
        GetCollection (collectionId pfd) 100 #
        rank_writes (collectionHandle pfd) (take 100 (products pc)) \<and>
      product_updates (snd (action_prototype env)) =
        map (\<lambda>i. (node_id (products pc ! i),
                   \<lparr>mf_namespace = ''custom'', mf_key = collectionHandle pfd @ ''_rank'',
                    mf_type = ''number_integer'', mf_value = toString (i + 1)\<rparr>))
          [0..<min 100 (length (products pc))] \<and>
      map fst (product_updates (snd (action_prototype env))) =
        map node_id (take 100 (products pc)) \<and>
      (\<forall>i. 100 \<le> i \<and> i < length (products pc) \<and> distinct (map node_id (products pc)) \<longrightarrow>
         node_id (products pc ! i) \<notin>
           set (map fst (product_updates (snd (action_prototype env))))))"
proof (intro conjI impI allI)
  assume a: "session_api request = Some (gql, fd) \<and>
    gql 0 (GetCollection (collectionId fd) 100) =
      platform_collection shop (collectionId fd) 100 \<and>
    shop (collectionId fd) = Some c \<and> sortOrder c = ''MANUAL''"
  let ?c = "c\<lparr>products := take 100 (products c)\<rparr>"
  from a platform_fetch [of gql fd shop c] have "fetched gql fd ?c" by blast
  with a have p: "session_proceeds request gql fd ?c"
    by (simp add: session_proceeds_def)
  show calls: "snd (action_session request) =
        GetCollection (collectionId fd) 100 #
        rank_writes (collectionHandle fd) (take 100 (products c)) @
        [rendered_at (collectionId fd) (clock request)]"
    by (simp add: action_session_run [OF p])
  show ups: "product_updates (snd (action_session request)) =
        map (\<lambda>i. (node_id (products c ! i),
                   \<lparr>mf_namespace = ''custom'', mf_key = collectionHandle fd @ ''_rank'',
                    mf_type = ''number_integer'', mf_value = toString (i + 1)\<rparr>))
          [0..<min 100 (length (products c))]"
    using product_updates_session [OF p] first_page_writes [of "products c" "collectionHandle fd"]
    by simp
  show ids: "map fst (product_updates (snd (action_session request))) =
        map node_id (take 100 (products c))"
    unfolding ups using map_nth_take [of node_id "products c" 100] by (simp add: comp_def)
  fix i
  assume "100 \<le> i \<and> i < length (products c) \<and> distinct (map node_id (products c))"
  then show "node_id (products c ! i) \<notin>
           set (map fst (product_updates (snd (action_session request))))"
    unfolding ids by (intro beyond_first_page) simp_all
next
  assume a: "prototype_api env = Some (pgql, pfd) \<and>
    pgql 0 (GetCollection (collectionId pfd) 100) =
      platform_collection pshop (collectionId pfd) 100 \<and>
    pshop (collectionId pfd) = Some pc \<and> sortOrder pc = ''MANUAL''"
  let ?c = "pc\<lparr>products := take 100 (products pc)\<rparr>"
  from a platform_fetch [of pgql pfd pshop pc] have "fetched pgql pfd ?c" by blast
  with a have p: "prototype_proceeds env pgql pfd ?c"
    by (simp add: prototype_proceeds_def)
  show calls: "snd (action_prototype env) =
        GetCollection (collectionId pfd) 100 #
        rank_writes (collectionHandle pfd) (take 100 (products pc))"
    by (simp add: action_prototype_run [OF p])
  show ups: "product_updates (snd (action_prototype env)) =
        map (\<lambda>i. (node_id (products pc ! i),
                   \<lparr>mf_namespace = ''custom'', mf_key = collectionHandle pfd @ ''_rank'',
                    mf_type = ''number_integer'', mf_value = toString (i + 1)\<rparr>))
          [0..<min 100 (length (products pc))]"
    using product_updates_prototype [OF p]
      first_page_writes [of "products pc" "collectionHandle pfd"]
    by simp
  show ids: "map fst (product_updates (snd (action_prototype env))) =
        map node_id (take 100 (products pc))"
    unfolding ups using map_nth_take [of node_id "products pc" 100] by (simp add: comp_def)
  fix i
  assume "100 \<le> i \<and> i < length (products pc) \<and> distinct (map node_id (products pc))"
  then show "node_id (products pc ! i) \<notin>
           set (map fst (product_updates (snd (action_prototype env))))"
    unfolding ids by (intro beyond_first_page) simp_all
qed

text \<open>A collection of 101 members: 100 writes, and none for the last member.\<close>

lemma large_collection_facts:
  "length (products large_collection) = 101"
  "sortOrder large_collection = ''MANUAL''"
  "node_id (products large_collection ! 100) = ''gid://shopify/Product/100''"
  "distinct (map node_id (products large_collection))"
proof -
  show "length (products large_collection) = 101"
    and "sortOrder large_collection = ''MANUAL''"
    by (simp_all add: large_collection_def)
  have "toString 100 = ''100''" by code_simp
  then show "node_id (products large_collection ! 100) = ''gid://shopify/Product/100''"
    by (simp add: large_collection_def)
  have "inj_on (\<lambda>i. ''gid://shopify/Product/'' @ toString i) (set [0..<101])"
    by (rule inj_onI) (simp add: toString_inj)
  then show "distinct (map node_id (products large_collection))"
    by (simp add: large_collection_def comp_def distinct_map)
qed

theorem C7_first_page_only_witness:
  "length (products large_collection) = 101 \<and>
   distinct (map node_id (products large_collection)) \<and>
   node_id (products large_collection ! 100) = ''gid://shopify/Product/100'' \<and>
   length (product_updates (snd (action_session (session_with (platform_api large_shop))))) = 100 \<and>
   ''gid://shopify/Product/100'' \<notin>
     set (map fst (product_updates (snd (action_session (session_with (platform_api large_shop)))))) \<and>
   length (product_updates (snd (action_prototype (prototype_with (platform_api large_shop))))) = 100 \<and>
   ''gid://shopify/Product/100'' \<notin>
     set (map fst (product_updates (snd (action_prototype (prototype_with (platform_api large_shop))))))"
proof -
  let ?g = "platform_api large_shop"
  let ?ps = "products large_collection"
  have q: "?g 0 (GetCollection (collectionId best_sellers_form) 100) =
      platform_collection large_shop (collectionId best_sellers_form) 100"
    by (simp add: platform_api_def)
  have l: "large_shop (collectionId best_sellers_form) = Some large_collection"
    by (simp add: large_shop_def best_sellers_form_def)
  have i: "(100::nat) \<le> 100 \<and> 100 < length ?ps \<and> distinct (map node_id ?ps)"
    by (simp add: large_collection_facts)
  from C7_first_page_only [of "session_with ?g" ?g best_sellers_form large_shop large_collection
      "prototype_with ?g" ?g best_sellers_form large_shop large_collection]
    session_api_with [of ?g] prototype_api_with [of ?g] q l large_collection_facts(2)
  have s: "map fst (product_updates (snd (action_session (session_with ?g)))) =
        map node_id (take 100 ?ps)"
    and sn: "\<forall>i. 100 \<le> i \<and> i < length ?ps \<and> distinct (map node_id ?ps) \<longrightarrow>
         node_id (?ps ! i) \<notin> set (map fst (product_updates (snd (action_session (session_with ?g)))))"
    and p: "map fst (product_updates (snd (action_prototype (prototype_with ?g)))) =
        map node_id (take 100 ?ps)"
    and pn: "\<forall>i. 100 \<le> i \<and> i < length ?ps \<and> distinct (map node_id ?ps) \<longrightarrow>
         node_id (?ps ! i) \<notin> set (map fst (product_updates (snd (action_prototype (prototype_with ?g)))))"
    by blast+
  have "length (map fst (product_updates (snd (action_session (session_with ?g))))) =
      length (map node_id (take 100 ?ps))"
    by (simp only: s)
  then have s100: "length (product_updates (snd (action_session (session_with ?g)))) = 100"
    by (simp add: large_collection_facts)
  have "length (map fst (product_updates (snd (action_prototype (prototype_with ?g))))) =
      length (map node_id (take 100 ?ps))"
    by (simp only: p)
  then have p100: "length (product_updates (snd (action_prototype (prototype_with ?g)))) = 100"
    by (simp add: large_collection_facts)
  from sn i have sx: "node_id (?ps ! 100) \<notin>
      set (map fst (product_updates (snd (action_session (session_with ?g)))))"
    by blast
  from pn i have px: "node_id (?ps ! 100) \<notin>
      set (map fst (product_updates (snd (action_prototype (prototype_with ?g)))))"
    by blast
  from s100 p100 sx px show ?thesis
    by (simp add: large_collection_facts)
qed

end
